theory Spec2Isabelle
  imports Complex_Main "HOL-Library.Sublist"
begin

section \<open>The rendered page\<close>

text \<open>
  Both scripts read one rendered page through in-page JavaScript. The page is modelled
  as the values those snippets read: the elements in document order, each with its
  attributes, texts, bounding rectangle, computed style and ancestor chain, plus the
  window and document properties that are queried.

  Measurements are finite IEEE doubles. Every finite double is a rational number, and the
  comparisons and \<open>Math.round\<close> applied to them are exact, so they are of type \<open>rat\<close>.
  Where the scripts add, divide or round such numbers the result is rounded to a double
  again; that arithmetic is modelled in the subsection on floating-point numbers below.
  Strings are sequences of 8-bit code points (the Latin-1 range).
\<close>

record rect =
  r_top :: rat
  r_bottom :: rat
  r_left :: rat
  r_width :: rat
  r_height :: rat

record element =
  localName :: string
  tagName :: string
  html_namespace :: bool
  attributes :: "(string \<times> string) list"
  innerText :: string
  textContent :: string
  boundingClientRect :: rect
  fontSize :: rat
  fontWeight :: string
  ancestors :: "string list"

record font_face =
  family :: string
  status :: string

record page =
  elements :: "element list"
  innerHeight :: int
  layout_shift :: "rat list option"
  document_fonts :: "font_face list"
  document_title :: string
  scrollWidth :: int
  clientWidth :: int

text \<open>
  \<open>fontSize\<close> is the number of pixels of the computed font size (what \<open>parseFloat\<close>
  reads from the computed \<open>"16px"\<close>). \<open>ancestors\<close> holds the local names of the
  element and of its ancestors, which is what \<open>closest\<close> inspects for a type selector.
  \<open>html_namespace\<close> holds for an HTML element of an HTML document; it does not for an
  element of another namespace, such as \<open>svg\<close> and what the parser puts inside it.
  \<open>layout_shift\<close> is \<open>None\<close> when \<open>performance.getEntriesByType\<close> throws,
  and the list of the entries' values otherwise.
\<close>

definition getAttribute :: "element \<Rightarrow> string \<Rightarrow> string option" where
  "getAttribute el name = map_of (attributes el) name"

definition closest :: "element \<Rightarrow> string \<Rightarrow> bool" where
  \<comment> \<open>\<open>el.closest(sel) !== null\<close> for a type selector\<close>
  "closest el sel = (sel \<in> set (ancestors el))"

subsection \<open>Selectors\<close>

datatype simple_selector =
  Tag string
  | Tag_attr string string string

type_synonym selector = "simple_selector list"

definition ascii_lower :: "string \<Rightarrow> string" where
  \<comment> \<open>only the letters A to Z change\<close>
  "ascii_lower s =
     map (\<lambda>c. let n = of_char c :: nat in if 65 \<le> n \<and> n \<le> 90 then char_of (n + 32) else c) s"

definition case_insensitive_attributes :: "string list" where
  \<comment> \<open>the attributes whose values a selector compares without regard to ASCII case
      on an HTML element (the list of the HTML standard)\<close>
  "case_insensitive_attributes =
     [''accept'', ''accept-charset'', ''align'', ''alink'', ''axis'', ''bgcolor'', ''charset'',
      ''checked'', ''clear'', ''codetype'', ''color'', ''compact'', ''declare'', ''defer'',
      ''dir'', ''direction'', ''disabled'', ''enctype'', ''face'', ''frame'', ''hreflang'',
      ''http-equiv'', ''lang'', ''language'', ''link'', ''media'', ''method'', ''multiple'',
      ''nohref'', ''noresize'', ''noshade'', ''nowrap'', ''readonly'', ''rel'', ''rev'',
      ''rules'', ''scope'', ''scrolling'', ''selected'', ''shape'', ''target'', ''text'',
      ''type'', ''valign'', ''valuetype'', ''vlink'']"

definition attribute_value_matches :: "element \<Rightarrow> string \<Rightarrow> string \<Rightarrow> string \<Rightarrow> bool" where
  \<comment> \<open>\<open>[a="v"]\<close> against the value \<open>w\<close> that the element has for \<open>a\<close>\<close>
  "attribute_value_matches el a v w =
     (if html_namespace el \<and> a \<in> set case_insensitive_attributes
      then ascii_lower w = ascii_lower v
      else w = v)"

fun matches_simple :: "simple_selector \<Rightarrow> element \<Rightarrow> bool" where
  "matches_simple (Tag t) el = (localName el = t)"
| "matches_simple (Tag_attr t a v) el =
     (localName el = t
      \<and> (case getAttribute el a of
            None \<Rightarrow> False
          | Some w \<Rightarrow> attribute_value_matches el a v w))"

definition matches :: "selector \<Rightarrow> element \<Rightarrow> bool" where
  \<comment> \<open>a comma-separated selector list matches when one of its members does\<close>
  "matches sel el = list_ex (\<lambda>s. matches_simple s el) sel"

definition query_selector_all :: "page \<Rightarrow> selector \<Rightarrow> element list" where
  "query_selector_all pg sel = filter (matches sel) (elements pg)"

definition query_selector :: "page \<Rightarrow> selector \<Rightarrow> element option" where
  "query_selector pg sel = find (matches sel) (elements pg)"

subsection \<open>JavaScript string and number operations\<close>

definition is_ws :: "char \<Rightarrow> bool" where
  \<comment> \<open>white space and line terminators of ECMAScript below 256:
      TAB, LF, VT, FF, CR, SP, NBSP\<close>
  "is_ws c = (of_char c \<in> {9, 10, 11, 12, 13, 32, 160 :: nat})"

definition trim :: "string \<Rightarrow> string" where
  "trim s = rev (dropWhile is_ws (rev (dropWhile is_ws s)))"

definition lower_char :: "char \<Rightarrow> char" where
  "lower_char c =
     (let n = of_char c :: nat
      in if (65 \<le> n \<and> n \<le> 90) \<or> (192 \<le> n \<and> n \<le> 222 \<and> n \<noteq> 215)
         then char_of (n + 32) else c)"

definition toLowerCase :: "string \<Rightarrow> string" where
  "toLowerCase s = map lower_char s"

fun js_includes :: "string \<Rightarrow> string \<Rightarrow> bool" where
  \<comment> \<open>\<open>s.includes(t)\<close>\<close>
  "js_includes [] t = (t = [])"
| "js_includes (c # s) t = (prefix t (c # s) \<or> js_includes s t)"

definition slice_to :: "nat \<Rightarrow> 'a list \<Rightarrow> 'a list" where
  \<comment> \<open>\<open>xs.slice(0, n)\<close> and Python's \<open>xs[:n]\<close>\<close>
  "slice_to n xs = take n xs"

definition slice_last :: "nat \<Rightarrow> 'a list \<Rightarrow> 'a list" where
  \<comment> \<open>\<open>s.slice(-n)\<close>\<close>
  "slice_last n xs = drop (length xs - n) xs"

definition truthy :: "string option \<Rightarrow> bool" where
  \<comment> \<open>\<open>null\<close> and the empty string are falsy\<close>
  "truthy v = (case v of None \<Rightarrow> False | Some s \<Rightarrow> s \<noteq> [])"

definition js_or :: "string option \<Rightarrow> string option \<Rightarrow> string option" where
  \<comment> \<open>\<open>a || b\<close>\<close>
  "js_or a b = (if truthy a then a else b)"

definition or_string :: "string option \<Rightarrow> string \<Rightarrow> string" where
  \<comment> \<open>\<open>a || "literal"\<close>, which is always a string\<close>
  "or_string a d = (case js_or a (Some d) of None \<Rightarrow> d | Some s \<Rightarrow> s)"

definition Math_round :: "rat \<Rightarrow> int" where
  \<comment> \<open>the nearest integer, a tie going up\<close>
  "Math_round x = \<lfloor>x + 1 / 2\<rfloor>"

definition in_viewport :: "page \<Rightarrow> rect \<Rightarrow> bool" where
  \<comment> \<open>\<open>r.top < window.innerHeight && r.bottom > 0\<close>\<close>
  "in_viewport pg r = (r_top r < of_int (innerHeight pg) \<and> r_bottom r > 0)"

subsection \<open>Floating-point numbers\<close>

text \<open>
  A JavaScript number and a Python float are IEEE 754 binary64 values: a finite one is
  given by its rational value (the sign of a zero is not kept), the others are the two
  infinities and not-a-number. \<open>fl\<close> rounds a rational number to the nearest binary64
  value, a tie going to the even significand: the result has 53 significant bits, its
  last bit is worth at least \<open>2 powi - 1074\<close>, and what rounds to \<open>2 ^ 1024\<close> or
  beyond is infinite.
\<close>

datatype double = Finite rat | PosInf | NegInf | NaN

function bit_length :: "int \<Rightarrow> nat" where
  "bit_length k = (if k \<le> 0 then 0 else Suc (bit_length (k div 2)))"
  by pat_completeness auto
termination
  by (relation "measure nat") auto

declare bit_length.simps [simp del]

definition floor_log2 :: "rat \<Rightarrow> int" where
  \<comment> \<open>for \<open>x > 0\<close>, the \<open>e\<close> with \<open>2 powi e \<le> x < 2 powi (e + 1)\<close>\<close>
  "floor_log2 x =
     (case quotient_of x of
        (p, q) \<Rightarrow>
          let e = int (bit_length p) - int (bit_length q)
          in if 2 powi e \<le> x then e else e - 1)"

definition round_half_even :: "rat \<Rightarrow> int" where
  "round_half_even y =
     (let f = \<lfloor>y\<rfloor>; d = y - of_int f
      in if d < 1 / 2 then f
         else if 1 / 2 < d then f + 1
         else if even f then f else f + 1)"

definition fl :: "rat \<Rightarrow> double" where
  "fl x =
     (if x = 0 then Finite 0
      else let e = floor_log2 \<bar>x\<bar>;
               q = max e (- 1022) - 52;
               y = of_int (round_half_even (x / 2 powi q)) * 2 powi q
           in if 2 ^ 1024 \<le> y then PosInf
              else if y \<le> - (2 ^ 1024) then NegInf
              else Finite y)"

fun dadd :: "double \<Rightarrow> double \<Rightarrow> double" where
  \<comment> \<open>\<open>a + b\<close> on numbers, in JavaScript and in Python\<close>
  "dadd (Finite a) (Finite b) = fl (a + b)"
| "dadd NaN _ = NaN"
| "dadd _ NaN = NaN"
| "dadd PosInf NegInf = NaN"
| "dadd NegInf PosInf = NaN"
| "dadd PosInf _ = PosInf"
| "dadd _ PosInf = PosInf"
| "dadd NegInf _ = NegInf"
| "dadd _ NegInf = NegInf"

subsection \<open>Python operations\<close>

text \<open>
  A number that is integral arrives in Python as an \<open>int\<close>, any other as a
  \<open>float\<close>. The lengths of a rendered page stay far below \<open>2 ^ 53\<close>; there the
  arithmetic of \<open>int\<close> and that of \<open>float\<close> give the same values on integers, so
  all numbers are taken as floats.
\<close>

datatype call =
  Sync_playwright | Launch | New_context | New_page | On_console | Goto | Wait_for_timeout
  | Evaluate | Eval_on_selector_all | Eval_on_selector | Query_selector | Get_attribute
  | Title | Makedirs | Screenshot | Close

datatype error =
  AttributeError
  | ValueError
  | ZeroDivisionError
  | OverflowError
  | Raised call

definition bind :: "error + 'a \<Rightarrow> ('a \<Rightarrow> error + 'b) \<Rightarrow> error + 'b" where
  "bind m f = (case m of Inl e \<Rightarrow> Inl e | Inr x \<Rightarrow> f x)"

definition py_round :: "double \<Rightarrow> nat \<Rightarrow> double" where
  \<comment> \<open>\<open>round(x, n)\<close> on a float: the float nearest to the value of \<open>x\<close> rounded to
      \<open>n\<close> decimal places, a tie of that decimal rounding going to the even digit;
      an infinity and not-a-number are returned as they are\<close>
  "py_round d n =
     (case d of
        Finite x \<Rightarrow> fl (of_int (round_half_even (x * 10 ^ n)) / 10 ^ n)
      | _ \<Rightarrow> d)"

definition py_min :: "rat list \<Rightarrow> error + rat" where
  \<comment> \<open>\<open>min(xs)\<close> raises ValueError on an empty list\<close>
  "py_min xs = (case xs of [] \<Rightarrow> Inl ValueError | x # ys \<Rightarrow> Inr (fold min ys x))"

definition py_div :: "double \<Rightarrow> nat \<Rightarrow> error + double" where
  \<comment> \<open>\<open>a / n\<close> for a float \<open>a\<close> and an int \<open>n\<close>: the int is converted to a
      float, which raises OverflowError when it is too large\<close>
  "py_div a n =
     (if n = 0 then Inl ZeroDivisionError
      else case fl (of_nat n) of
             Finite m \<Rightarrow>
               (case a of Finite x \<Rightarrow> Inr (fl (x / m)) | _ \<Rightarrow> Inr a)
           | _ \<Rightarrow> Inl OverflowError)"

definition left_to_right_sum :: "rat list \<Rightarrow> double" where
  \<comment> \<open>\<open>sum(xs)\<close> as the interpreters before 3.12 compute it: one addition after the
      other, from 0\<close>
  "left_to_right_sum xs = fold (\<lambda>x acc. dadd acc (Finite x)) xs (Finite 0)"

fun show_nat :: "nat \<Rightarrow> string" where
  "show_nat n =
     (if n < 10 then [char_of (48 + n)]
      else show_nat (n div 10) @ [char_of (48 + n mod 10)])"

declare show_nat.simps [simp del]

definition show_int :: "int \<Rightarrow> string" where
  "show_int i = (if i < 0 then CHR ''-'' # show_nat (nat (- i)) else show_nat (nat i))"


section \<open>The audit script\<close>

subsection \<open>Layout shift\<close>

definition cls_score :: "page \<Rightarrow> double" where
  \<comment> \<open>\<open>cls\<close> starts at 0 and stays there when the query throws\<close>
  "cls_score pg =
     (case layout_shift pg of
        None \<Rightarrow> Finite 0
      | Some entries \<Rightarrow> fold (\<lambda>e sum. dadd sum (Finite e)) entries (Finite 0))"

subsection \<open>Headings\<close>

record heading =
  h_tag :: string
  h_text :: string
  h_fontSize :: rat
  h_fontWeight :: string
  h_top :: int
  h_aboveFold :: bool

definition heading_of :: "page \<Rightarrow> element \<Rightarrow> heading" where
  "heading_of pg el =
     (let r = boundingClientRect el
      in \<lparr> h_tag = tagName el,
           h_text = slice_to 80 (trim (innerText el)),
           h_fontSize = fontSize el,
           h_fontWeight = fontWeight el,
           h_top = Math_round (r_top r),
           h_aboveFold = (r_top r < of_int (innerHeight pg) \<and> r_bottom r > 0) \<rparr>)"

definition headings :: "page \<Rightarrow> heading list" where
  "headings pg =
     map (heading_of pg)
       (query_selector_all pg
          [Tag ''h1'', Tag ''h2'', Tag ''h3'', Tag ''h4'', Tag ''h5'', Tag ''h6''])"

subsection \<open>Tap targets\<close>

record tap_target =
  t_text :: string
  t_tag :: string
  t_width :: int
  t_height :: int
  t_top :: int
  t_tooSmall :: bool

definition tap_target_of :: "element \<Rightarrow> tap_target" where
  "tap_target_of el =
     (let r = boundingClientRect el
      in \<lparr> t_text = slice_to 40 (trim (innerText el)),
           t_tag = tagName el,
           t_width = Math_round (r_width r),
           t_height = Math_round (r_height r),
           t_top = Math_round (r_top r),
           t_tooSmall = (r_width r < 44 \<or> r_height r < 44) \<rparr>)"

definition tap_targets :: "page \<Rightarrow> tap_target list" where
  "tap_targets pg =
     filter (\<lambda>t. t_width t > 0 \<and> t_height t > 0)
       (map tap_target_of (query_selector_all pg [Tag ''a'', Tag ''button'']))"

definition small_targets :: "page \<Rightarrow> tap_target list" where
  "small_targets pg = filter t_tooSmall (tap_targets pg)"

subsection \<open>Meta tags\<close>

definition get_attribute :: "element option \<Rightarrow> string \<Rightarrow> error + string option" where
  \<comment> \<open>a method call on Python's \<open>None\<close> raises AttributeError\<close>
  "get_attribute el attr =
     (case el of None \<Rightarrow> Inl AttributeError | Some e \<Rightarrow> Inr (getAttribute e attr))"

definition get_meta :: "page \<Rightarrow> selector \<Rightarrow> string \<Rightarrow> error + string option" where
  "get_meta pg selector attr =
     (let el = query_selector pg selector
      in if el \<noteq> None then get_attribute el attr else Inr None)"

record meta_block =
  og_title :: "string option"
  og_description :: "string option"
  og_image :: "string option"
  og_url :: "string option"
  twitter_card :: "string option"
  twitter_title :: "string option"
  canonical :: "string option"
  robots :: "string option"
  viewport :: "string option"

definition meta :: "page \<Rightarrow> error + meta_block" where
  "meta pg =
     bind (get_meta pg [Tag_attr ''meta'' ''property'' ''og:title''] ''content'') (\<lambda>og_title.
     bind (get_meta pg [Tag_attr ''meta'' ''property'' ''og:description''] ''content'') (\<lambda>og_desc.
     bind (get_meta pg [Tag_attr ''meta'' ''property'' ''og:image''] ''content'') (\<lambda>og_image.
     bind (get_meta pg [Tag_attr ''meta'' ''property'' ''og:url''] ''content'') (\<lambda>og_url.
     bind (get_meta pg [Tag_attr ''meta'' ''name'' ''twitter:card''] ''content'') (\<lambda>tw_card.
     bind (get_meta pg [Tag_attr ''meta'' ''name'' ''twitter:title''] ''content'') (\<lambda>tw_title.
     bind (get_meta pg [Tag_attr ''link'' ''rel'' ''canonical''] ''href'') (\<lambda>canonical.
     bind (get_meta pg [Tag_attr ''meta'' ''name'' ''robots''] ''content'') (\<lambda>robots.
     bind (get_meta pg [Tag_attr ''meta'' ''name'' ''viewport''] ''content'') (\<lambda>viewport_m.
     Inr \<lparr> og_title = og_title,
           og_description = og_desc,
           og_image = og_image,
           og_url = og_url,
           twitter_card = tw_card,
           twitter_title = tw_title,
           canonical = canonical,
           robots = robots,
           viewport = viewport_m \<rparr>)))))))))"

subsection \<open>Structured data, images, fonts\<close>

definition ld_json_blocks :: "page \<Rightarrow> string list" where
  "ld_json_blocks pg =
     map (\<lambda>el. trim (textContent el))
       (query_selector_all pg [Tag_attr ''script'' ''type'' ''application/ld+json''])"

record image =
  i_src :: string
  i_alt :: "string option"
  i_hasAlt :: bool
  i_width :: int
  i_height :: int

definition image_of :: "element \<Rightarrow> image" where
  "image_of el =
     (let r = boundingClientRect el
      in \<lparr> i_src = slice_last 40 (or_string (getAttribute el ''src'') []),
           i_alt = getAttribute el ''alt'',
           i_hasAlt = (length (trim (or_string (getAttribute el ''alt'') [])) > 0),
           i_width = Math_round (r_width r),
           i_height = Math_round (r_height r) \<rparr>)"

definition images :: "page \<Rightarrow> image list" where
  "images pg = map image_of (query_selector_all pg [Tag ''img''])"

definition font_faces :: "page \<Rightarrow> font_face list" where
  "font_faces pg = slice_to 10 (document_fonts pg)"

subsection \<open>Font sizes above the fold\<close>

definition body_font_sizes :: "page \<Rightarrow> rat list" where
  "body_font_sizes pg =
     filter (\<lambda>s. s > 0)
       (map fontSize
          (filter
             (\<lambda>el. let r = boundingClientRect el
                   in r_top r < of_int (innerHeight pg) \<and> r_bottom r > 0 \<and> r_height r > 0)
             (query_selector_all pg [Tag ''p'', Tag ''span'', Tag ''li''])))"

definition min_font :: "page \<Rightarrow> error + rat option" where
  "min_font pg =
     (let xs = body_font_sizes pg
      in if xs \<noteq> [] then bind (py_min xs) (\<lambda>m. Inr (Some m)) else Inr None)"

text \<open>
  How Python's built-in \<open>sum\<close> rounds a sum of floats depends on the interpreter
  (one addition after the other before version 3.12, with a compensation of the rounding
  errors since), and the scripts fix no version. The function is a parameter,
  \<open>py_sum\<close>, of what follows; \<open>left_to_right_sum\<close> is the one of the older
  interpreters.
\<close>

definition avg_font :: "(rat list \<Rightarrow> double) \<Rightarrow> page \<Rightarrow> error + double option" where
  "avg_font py_sum pg =
     (let xs = body_font_sizes pg
      in if xs \<noteq> []
         then bind (py_div (py_sum xs) (length xs)) (\<lambda>q. Inr (Some (py_round q 1)))
         else Inr None)"

subsection \<open>The report\<close>

record audit_report =
  rp_url :: string
  rp_viewport :: string
  rp_cls_score :: double
  rp_headings :: "heading list"
  rp_small_tap_targets_count :: nat
  rp_small_tap_targets_sample :: "tap_target list"
  rp_meta :: meta_block
  rp_structured_data_count :: nat
  rp_structured_data :: "string list"
  rp_images :: "image list"
  rp_images_missing_alt :: "image list"
  rp_fonts :: "font_face list"
  rp_min_above_fold_font_px :: "rat option"
  rp_avg_above_fold_font_px :: "double option"

definition audit_body ::
  "(rat list \<Rightarrow> double) \<Rightarrow> string \<Rightarrow> int \<Rightarrow> int \<Rightarrow> page \<Rightarrow> error + audit_report" where
  \<comment> \<open>the values computed inside the \<open>with\<close> block, once the page is rendered\<close>
  "audit_body py_sum url viewport_width viewport_height pg =
     bind (meta pg) (\<lambda>m.
     bind (min_font pg) (\<lambda>min_font.
     bind (avg_font py_sum pg) (\<lambda>avg_font.
     Inr \<lparr> rp_url = url,
           rp_viewport = show_int viewport_width @ ''x'' @ show_int viewport_height,
           rp_cls_score = py_round (cls_score pg) 4,
           rp_headings = headings pg,
           rp_small_tap_targets_count = length (small_targets pg),
           rp_small_tap_targets_sample = slice_to 5 (small_targets pg),
           rp_meta = m,
           rp_structured_data_count = length (ld_json_blocks pg),
           rp_structured_data = ld_json_blocks pg,
           rp_images = images pg,
           rp_images_missing_alt = filter (\<lambda>i. \<not> i_hasAlt i) (images pg),
           rp_fonts = font_faces pg,
           rp_min_above_fold_font_px = min_font,
           rp_avg_above_fold_font_px = avg_font \<rparr>)))"

section \<open>The screenshot script\<close>

definition h1s :: "page \<Rightarrow> string list" where
  "h1s pg = map (\<lambda>e. trim (innerText e)) (query_selector_all pg [Tag ''h1''])"

definition h2s :: "page \<Rightarrow> string list" where
  "h2s pg = map (\<lambda>e. trim (innerText e)) (query_selector_all pg [Tag ''h2''])"

definition meta_desc :: "page \<Rightarrow> string option" where
  "meta_desc pg =
     (if query_selector pg [Tag_attr ''meta'' ''name'' ''description''] \<noteq> None
      then (case query_selector pg [Tag_attr ''meta'' ''name'' ''description''] of
              Some el \<Rightarrow> getAttribute el ''content''
            | None \<Rightarrow> None)
      else None)"

record cta =
  c_text :: string
  c_tag :: string
  c_top :: int
  c_left :: int
  c_width :: int
  c_height :: int
  c_visible :: bool

definition cta_keywords :: "string list" where
  "cta_keywords =
     [''get'', ''start'', ''book'', ''contact'', ''try'', ''demo'', ''free'', ''sign'',
      ''request'']"

definition is_cta :: "element \<Rightarrow> bool" where
  "is_cta el =
     (let t = toLowerCase (trim (innerText el))
      in list_ex (\<lambda>k. js_includes t k) cta_keywords)"

definition cta_of :: "page \<Rightarrow> element \<Rightarrow> cta" where
  "cta_of pg el =
     (let r = boundingClientRect el
      in \<lparr> c_text = trim (innerText el),
           c_tag = tagName el,
           c_top = Math_round (r_top r),
           c_left = Math_round (r_left r),
           c_width = Math_round (r_width r),
           c_height = Math_round (r_height r),
           c_visible = (r_top r < of_int (innerHeight pg) \<and> r_bottom r > 0) \<rparr>)"

definition ctas :: "page \<Rightarrow> cta list" where
  "ctas pg =
     map (cta_of pg)
       (slice_to 8 (filter is_cta (query_selector_all pg [Tag ''a'', Tag ''button''])))"

definition has_h_scroll :: "page \<Rightarrow> bool" where
  "has_h_scroll pg = (scrollWidth pg > clientWidth pg)"

record logo_candidate =
  l_tag :: string
  l_src :: string
  l_visible :: bool

definition is_logo :: "element \<Rightarrow> bool" where
  "is_logo el =
     (let src = toLowerCase
                  (or_string
                     (js_or (getAttribute el ''src'')
                        (js_or (getAttribute el ''alt'') (getAttribute el ''aria-label'')))
                     [])
      in js_includes src ''logo'' \<or> closest el ''header'' \<or> closest el ''nav'')"

definition logo_of :: "page \<Rightarrow> element \<Rightarrow> logo_candidate" where
  "logo_of pg el =
     (let r = boundingClientRect el
      in \<lparr> l_tag = tagName el,
           l_src = or_string (getAttribute el ''src'') ''(svg)'',
           l_visible = (r_top r < of_int (innerHeight pg)) \<rparr>)"

definition logo_candidates :: "page \<Rightarrow> logo_candidate list" where
  "logo_candidates pg =
     map (logo_of pg)
       (slice_to 3 (filter is_logo (query_selector_all pg [Tag ''img'', Tag ''svg''])))"

record capture_report =
  cr_title :: string
  cr_h1s :: "string list"
  cr_h2s :: "string list"
  cr_meta_description :: "string option"
  cr_ctas :: "cta list"
  cr_has_horizontal_scroll :: bool
  cr_scroll_width :: int
  cr_client_width :: int
  cr_logo_candidates :: "logo_candidate list"

definition capture_body :: "page \<Rightarrow> capture_report" where
  \<comment> \<open>the values computed inside the \<open>with\<close> block, once the page is rendered\<close>
  "capture_body pg =
     \<lparr> cr_title = document_title pg,
       cr_h1s = h1s pg,
       cr_h2s = slice_to 5 (h2s pg),
       cr_meta_description = meta_desc pg,
       cr_ctas = ctas pg,
       cr_has_horizontal_scroll = has_h_scroll pg,
       cr_scroll_width = scrollWidth pg,
       cr_client_width = clientWidth pg,
       cr_logo_candidates = logo_candidates pg \<rparr>"


section \<open>The browser session\<close>

text \<open>
  Each script runs inside \<open>with sync_playwright() as p\<close>. The automation library is
  outside the repository; its calls are modelled by what they do to the processes of the
  invocation: \<open>launch\<close> starts the browser, \<open>browser.close()\<close> ends it, and leaving
  the \<open>with\<close> block stops the driver, which ends every browser the driver launched.
  Any call may raise: the \<open>n\<close>-th call of an invocation raises when \<open>raises n\<close>
  holds, and a call that raises has no effect.
\<close>

record world =
  driver_running :: bool
  browser_running :: bool

definition initial_world :: world where
  "initial_world = \<lparr> driver_running = False, browser_running = False \<rparr>"

fun effect :: "call \<Rightarrow> world \<Rightarrow> world" where
  "effect Launch w = w\<lparr> browser_running := True \<rparr>"
| "effect Close w = w\<lparr> browser_running := False \<rparr>"
| "effect _ w = w"

fun run_calls :: "(nat \<Rightarrow> bool) \<Rightarrow> nat \<Rightarrow> call list \<Rightarrow> world \<Rightarrow> (error + unit) \<times> world" where
  "run_calls raises n [] w = (Inr (), w)"
| "run_calls raises n (c # cs) w =
     (if raises n then (Inl (Raised c), w)
      else run_calls raises (Suc n) cs (effect c w))"

definition playwright_stop :: "world \<Rightarrow> world" where
  "playwright_stop w = w\<lparr> driver_running := False, browser_running := False \<rparr>"

definition with_sync_playwright ::
  "(nat \<Rightarrow> bool) \<Rightarrow> call list \<Rightarrow> world \<Rightarrow> (error + unit) \<times> world" where
  \<comment> \<open>the context manager: the exit handler runs however the body ends\<close>
  "with_sync_playwright raises body w =
     (if raises 0 then (Inl (Raised Sync_playwright), w)
      else (case run_calls raises 1 body (w\<lparr> driver_running := True \<rparr>) of
              (r, w') \<Rightarrow> (r, playwright_stop w')))"

definition get_meta_calls :: "page \<Rightarrow> selector \<Rightarrow> call list" where
  "get_meta_calls pg selector =
     Query_selector # (if query_selector pg selector \<noteq> None then [Get_attribute] else [])"

definition audit_calls :: "page \<Rightarrow> call list" where
  "audit_calls pg =
     [Launch, New_context, New_page, On_console, Goto, Wait_for_timeout,
      Evaluate, Eval_on_selector_all, Eval_on_selector_all]
     @ get_meta_calls pg [Tag_attr ''meta'' ''property'' ''og:title'']
     @ get_meta_calls pg [Tag_attr ''meta'' ''property'' ''og:description'']
     @ get_meta_calls pg [Tag_attr ''meta'' ''property'' ''og:image'']
     @ get_meta_calls pg [Tag_attr ''meta'' ''property'' ''og:url'']
     @ get_meta_calls pg [Tag_attr ''meta'' ''name'' ''twitter:card'']
     @ get_meta_calls pg [Tag_attr ''meta'' ''name'' ''twitter:title'']
     @ get_meta_calls pg [Tag_attr ''link'' ''rel'' ''canonical'']
     @ get_meta_calls pg [Tag_attr ''meta'' ''name'' ''robots'']
     @ get_meta_calls pg [Tag_attr ''meta'' ''name'' ''viewport'']
     @ [Eval_on_selector_all, Eval_on_selector_all, Evaluate, Eval_on_selector_all, Close]"

definition audit ::
  "(nat \<Rightarrow> bool) \<Rightarrow> (rat list \<Rightarrow> double) \<Rightarrow> string \<Rightarrow> int \<Rightarrow> int \<Rightarrow> page
     \<Rightarrow> (error + audit_report) \<times> world" where
  \<comment> \<open>\<open>pg\<close> is the page the browser renders for \<open>url\<close> at the given viewport\<close>
  "audit raises py_sum url viewport_width viewport_height pg =
     (case with_sync_playwright raises (audit_calls pg) initial_world of
        (Inl e, w) \<Rightarrow> (Inl e, w)
      | (Inr _, w) \<Rightarrow> (audit_body py_sum url viewport_width viewport_height pg, w))"

definition capture_calls :: "page \<Rightarrow> call list" where
  "capture_calls pg =
     [Launch, New_context, New_page, Goto, Wait_for_timeout, Title,
      Eval_on_selector_all, Eval_on_selector_all, Query_selector]
     @ (if query_selector pg [Tag_attr ''meta'' ''name'' ''description''] \<noteq> None
        then [Eval_on_selector] else [])
     @ [Eval_on_selector_all, Evaluate, Evaluate, Eval_on_selector_all,
        Makedirs, Screenshot, Close]"

definition capture ::
  "(nat \<Rightarrow> bool) \<Rightarrow> string \<Rightarrow> string \<Rightarrow> page \<Rightarrow> (error + capture_report) \<times> world" where
  "capture raises url output_path pg =
     (case with_sync_playwright raises (capture_calls pg) initial_world of
        (Inl e, w) \<Rightarrow> (Inl e, w)
      | (Inr _, w) \<Rightarrow> (Inr (capture_body pg), w))"


section \<open>The claim about logo candidates, in the words of the specification\<close>

definition logo_by_spec :: "element \<Rightarrow> bool" where
  \<comment> \<open>inside a header or nav ancestor, or src, alt or aria-label mentions "logo"\<close>
  "logo_by_spec el =
     (closest el ''header'' \<or> closest el ''nav''
      \<or> js_includes (toLowerCase (or_string (getAttribute el ''src'') [])) ''logo''
      \<or> js_includes (toLowerCase (or_string (getAttribute el ''alt'') [])) ''logo''
      \<or> js_includes (toLowerCase (or_string (getAttribute el ''aria-label'') [])) ''logo'')"

section \<open>Example pages\<close>

definition never :: "nat \<Rightarrow> bool" where
  \<comment> \<open>no call raises\<close>
  "never n = False"

definition only_at :: "nat \<Rightarrow> nat \<Rightarrow> bool" where
  \<comment> \<open>the \<open>k\<close>-th call raises\<close>
  "only_at k n = (n = k)"

definition box :: "rat \<Rightarrow> rat \<Rightarrow> rat \<Rightarrow> rat \<Rightarrow> rect" where
  "box t l w h = \<lparr> r_top = t, r_bottom = t + h, r_left = l, r_width = w, r_height = h \<rparr>"

definition blank :: element where
  "blank = \<lparr> localName = [], tagName = [], html_namespace = True, attributes = [],
     innerText = [],
     textContent = [], boundingClientRect = box 0 0 0 0, fontSize = 16,
     fontWeight = ''400'', ancestors = [] \<rparr>"

definition page_of :: "element list \<Rightarrow> page" where
  "page_of els = \<lparr> elements = els, innerHeight = 900, layout_shift = Some [],
     document_fonts = [], document_title = [], scrollWidth = 1440, clientWidth = 1440 \<rparr>"

definition narrow_link :: element where
  \<comment> \<open>a link 43.75 pixels wide and 50 pixels high\<close>
  "narrow_link = blank \<lparr> localName := ''a'', tagName := ''A'', innerText := ''Pricing'',
     boundingClientRect := box 10 10 (175 / 4) 50 \<rparr>"

definition fine_print :: element where
  \<comment> \<open>a visible paragraph set in 12.125 pixels\<close>
  "fine_print = blank \<lparr> localName := ''p'', tagName := ''P'', innerText := ''Terms apply'',
     boundingClientRect := box 100 0 300 20, fontSize := 97 / 8 \<rparr>"

definition empty_paragraph :: element where
  \<comment> \<open>an empty paragraph: height 0, 100 pixels below the top of the viewport\<close>
  "empty_paragraph = blank \<lparr> localName := ''p'', tagName := ''P'',
     boundingClientRect := \<lparr> r_top = 100, r_bottom = 100, r_left = 0, r_width = 300,
       r_height = 0 \<rparr> \<rparr>"

definition hidden_sprite :: element where
  \<comment> \<open>an svg with \<open>display: none\<close> inside the header: its rectangle is all zeros\<close>
  "hidden_sprite = blank \<lparr> localName := ''svg'', tagName := ''svg'',
     html_namespace := False, ancestors := [''svg'', ''header'', ''body'', ''html''] \<rparr>"

definition bare_robots :: element where
  \<comment> \<open>\<open><meta name="robots">\<close>, without a content attribute\<close>
  "bare_robots = blank \<lparr> localName := ''meta'', tagName := ''META'',
     attributes := [(''name'', ''robots'')] \<rparr>"

definition og_title_tag :: element where
  "og_title_tag = blank \<lparr> localName := ''meta'', tagName := ''META'',
     attributes := [(''property'', ''og:title''), (''content'', ''Home'')] \<rparr>"

definition canonical_link :: element where
  \<comment> \<open>\<open><link rel="CANONICAL" href="https://example.org/">\<close>\<close>
  "canonical_link = blank \<lparr> localName := ''link'', tagName := ''LINK'',
     attributes := [(''rel'', ''CANONICAL''), (''href'', ''https://example.org/'')] \<rparr>"

definition badge :: element where
  \<comment> \<open>an image outside header and nav whose alt text, not its src, mentions the logo\<close>
  "badge = blank \<lparr> localName := ''img'', tagName := ''IMG'',
     attributes := [(''src'', ''/img/a.png''), (''alt'', ''Company Logo'')],
     boundingClientRect := box 20 20 120 40,
     ancestors := [''img'', ''main'', ''body'', ''html''] \<rparr>"

definition nav_icon :: "string \<Rightarrow> element" where
  "nav_icon src = blank \<lparr> localName := ''img'', tagName := ''IMG'',
     attributes := [(''src'', src)],
     boundingClientRect := box 20 200 24 24,
     ancestors := [''img'', ''nav'', ''body'', ''html''] \<rparr>"

definition picture :: "(string \<times> string) list \<Rightarrow> element" where
  "picture attrs = blank \<lparr> localName := ''img'', tagName := ''IMG'', attributes := attrs,
     boundingClientRect := box 50 50 200 100 \<rparr>"

definition title_element :: "string \<Rightarrow> string \<Rightarrow> element" where
  "title_element name text = blank \<lparr> localName := name, tagName := name,
     innerText := text, boundingClientRect := box 30 0 600 40 \<rparr>"

definition page_narrow_link :: page where
  "page_narrow_link = page_of [narrow_link]"

definition page_fine_print :: page where
  "page_fine_print = page_of [fine_print]"

definition page_empty_paragraph :: page where
  "page_empty_paragraph = page_of [empty_paragraph]"

definition page_hidden_sprite :: page where
  "page_hidden_sprite = page_of [hidden_sprite]"

definition page_bare_robots :: page where
  "page_bare_robots = page_of [og_title_tag, bare_robots, canonical_link]"

definition page_badge :: page where
  "page_badge =
     page_of [badge, nav_icon ''/i/1.png'', nav_icon ''/i/2.png'', nav_icon ''/i/3.png'']"

definition page_pictures :: page where
  "page_pictures =
     page_of [picture [(''src'', ''/a.png''), (''alt'', ''Team'')],
              picture [(''src'', ''/b.png''), (''alt'', ''  '')],
              picture [(''src'', ''/c.png'')]]"

definition late_image :: element where
  \<comment> \<open>an image without width and height attributes, 400 pixels high once loaded\<close>
  "late_image = blank \<lparr> localName := ''img'', tagName := ''IMG'',
     attributes := [(''src'', ''/hero.jpg''), (''alt'', ''Hero'')],
     boundingClientRect := box 0 0 1440 400 \<rparr>"

definition page_late_image :: page where
  \<comment> \<open>the image loads after the first paint and moves the heading under it down, which
      is a layout shift; the query of the performance timeline returns no entry\<close>
  "page_late_image =
     (page_of [late_image, title_element ''h1'' ''Welcome''])
     \<lparr> layout_shift := Some [] \<rparr>"

definition page_titles :: page where
  \<comment> \<open>six h1 and seven h2 elements\<close>
  "page_titles =
     page_of (map (title_element ''h1'') [''A'', ''B'', ''C'', ''D'', ''E'', ''F'']
              @ map (title_element ''h2'') [''1'', ''2'', ''3'', ''4'', ''5'', ''6'', ''7''])"

definition page_six_links :: page where
  "page_six_links = page_of (replicate 6 narrow_link)"

section \<open>Auxiliary facts\<close>

lemma bind_Inr: "bind (Inr x) f = f x"
  by (simp add: bind_def)

lemma floor_rat_numeral: "\<lfloor>numeral a / numeral b :: rat\<rfloor> = numeral a div numeral b"
  using floor_divide_of_int_eq [of "numeral a" "numeral b", where ?'a = rat] by simp

lemma matches_Tag: "matches [Tag t] = (\<lambda>e. localName e = t)"
  by (rule ext) (simp add: matches_def)

lemma get_meta_eq:
  "get_meta pg sel attr =
     Inr (Option.bind (query_selector pg sel) (\<lambda>el. getAttribute el attr))"
  by (simp add: get_meta_def get_attribute_def Let_def split: option.splits)

lemma min_font_eq:
  "min_font pg =
     Inr (if body_font_sizes pg = [] then None else Some (Min (set (body_font_sizes pg))))"
  by (cases "body_font_sizes pg")
    (simp_all add: min_font_def py_min_def bind_def Min.set_eq_fold [symmetric] del: set_simps)

subsection \<open>Rounding to a double\<close>

lemma bit_length_bounds:
  "0 < k \<Longrightarrow> 2 ^ (bit_length k - 1) \<le> k \<and> k < 2 ^ bit_length k"
proof (induction k rule: bit_length.induct)
  case (1 k)
  show ?case
  proof (cases "k = 1")
    case True
    then show ?thesis by (simp add: bit_length.simps [of 1] bit_length.simps [of 0])
  next
    case False
    with "1.prems" have pos: "0 < k div 2" by simp
    from "1.prems" have not: "\<not> k \<le> 0" by simp
    from "1.IH" [OF not pos]
    have lo: "2 ^ (bit_length (k div 2) - 1) \<le> k div 2"
      and hi: "k div 2 < 2 ^ bit_length (k div 2)" by simp_all
    have len: "bit_length k = Suc (bit_length (k div 2))"
      using not by (simp add: bit_length.simps [of k])
    have "0 < bit_length (k div 2)"
      using pos by (simp add: bit_length.simps [of "k div 2"])
    then obtain n where n: "bit_length (k div 2) = Suc n"
      by (cases "bit_length (k div 2)") simp_all
    from lo have "2 * 2 ^ n \<le> k" unfolding n by simp
    moreover from hi have "k < 2 * 2 ^ Suc n" unfolding n by simp
    ultimately show ?thesis by (simp add: len n)
  qed
qed

lemma floor_log2_bounds:
  assumes "0 < x"
  shows "2 powi (floor_log2 x) \<le> x \<and> x < 2 powi (floor_log2 x + 1)"
proof -
  obtain p q where pq: "quotient_of x = (p, q)" by (cases "quotient_of x")
  then have q: "0 < q" and x: "x = of_int p / of_int q"
    by (auto dest: quotient_of_denom_pos quotient_of_div)
  with assms have p: "0 < p" by (simp add: zero_less_divide_iff)
  define a where "a = bit_length p"
  define b where "b = bit_length q"
  from bit_length_bounds [OF p] have pa: "2 ^ (a - 1) \<le> p" "p < 2 ^ a"
    by (simp_all add: a_def)
  from bit_length_bounds [OF q] have qb: "2 ^ (b - 1) \<le> q" "q < 2 ^ b"
    by (simp_all add: b_def)
  have a0: "0 < a" using p by (simp add: a_def bit_length.simps [of p])
  have b0: "0 < b" using q by (simp add: b_def bit_length.simps [of q])
  have rp: "(2::rat) ^ (a - 1) \<le> of_int p" "of_int p < (2::rat) ^ a"
    using pa
    by (metis of_int_le_iff of_int_numeral of_int_power,
        metis of_int_less_iff of_int_numeral of_int_power)
  have rq: "(2::rat) ^ (b - 1) \<le> of_int q" "of_int q < (2::rat) ^ b"
    using qb
    by (metis of_int_le_iff of_int_numeral of_int_power,
        metis of_int_less_iff of_int_numeral of_int_power)
  have qpos: "(0::rat) < of_int q" using q by simp
  have upper: "x < 2 powi (int a - int b + 1)"
  proof -
    have "x * of_int q = of_int p" using qpos by (simp add: x)
    also have "\<dots> < 2 ^ a" by (rule rp)
    also have "\<dots> = 2 powi (int a - int b + 1) * 2 ^ (b - 1)"
      using b0 by (cases b) (simp_all add: power_int_add power_int_diff)
    also have "\<dots> \<le> 2 powi (int a - int b + 1) * of_int q"
      using rq(1) by (simp add: mult_left_mono)
    finally show ?thesis using qpos by simp
  qed
  have lower: "2 powi (int a - int b - 1) \<le> x"
  proof -
    have "(2::rat) powi (int a - int b - 1) * of_int q \<le> 2 powi (int a - int b - 1) * 2 ^ b"
      using rq(2) by (simp add: mult_left_mono)
    also have "\<dots> = 2 ^ (a - 1)"
      using a0 by (cases a) (simp_all add: power_int_diff)
    also have "\<dots> \<le> of_int p" by (rule rp)
    also have "\<dots> = x * of_int q" using qpos by (simp add: x)
    finally show ?thesis using qpos by simp
  qed
  show ?thesis
    using upper lower
    by (auto simp: floor_log2_def pq a_def [symmetric] b_def [symmetric] Let_def not_le
        algebra_simps)
qed

lemma powi_less_imp: "(2::rat) powi a < 2 powi b \<Longrightarrow> a < b"
proof (rule ccontr)
  assume less: "(2::rat) powi a < 2 powi b" and "\<not> a < b"
  then have "b \<le> a" by simp
  then have "(2::rat) powi b \<le> 2 powi a"
    by (intro power_int_increasing) simp_all
  with less show False by simp
qed

lemma floor_log2_unique:
  assumes "0 < x" and lo: "2 powi e \<le> x" and hi: "x < 2 powi (e + 1)"
  shows "floor_log2 x = e"
proof -
  let ?f = "floor_log2 x"
  from floor_log2_bounds [OF assms(1)]
  have flo: "2 powi ?f \<le> x" and fhi: "x < 2 powi (?f + 1)" by simp_all
  have "(2::rat) powi e < 2 powi (?f + 1)" using lo fhi by simp
  then have "e < ?f + 1" by (rule powi_less_imp)
  moreover have "(2::rat) powi ?f < 2 powi (e + 1)" using flo hi by simp
  then have "?f < e + 1" by (rule powi_less_imp)
  ultimately show ?thesis by simp
qed

lemma fl_finite:
  assumes "x \<noteq> 0"
    and "2 powi e \<le> \<bar>x\<bar>" and "\<bar>x\<bar> < 2 powi (e + 1)"
    and "q = max e (- 1022) - 52"
    and "round_half_even (x / 2 powi q) = m"
    and "\<bar>of_int m * 2 powi q\<bar> < (2::rat) ^ 1024"
  shows "fl x = Finite (of_int m * 2 powi q)"
proof -
  have "floor_log2 \<bar>x\<bar> = e"
    using assms(1-3) by (intro floor_log2_unique) simp_all
  then show ?thesis
    using assms(1,4,5,6) by (simp add: fl_def Let_def abs_less_iff not_le)
qed

lemma round_half_even_eq:
  "of_int m - 1 / 2 < y \<Longrightarrow> y < of_int m + 1 / 2 \<Longrightarrow> round_half_even y = m"
proof -
  assume a: "of_int m - 1 / 2 < y" "y < of_int m + 1 / 2"
  have f: "of_int \<lfloor>y\<rfloor> \<le> y" "y < of_int \<lfloor>y\<rfloor> + 1" by linarith+
  have "\<lfloor>y\<rfloor> = m \<or> \<lfloor>y\<rfloor> = m - 1"
    using a f by linarith
  then show ?thesis
  proof
    assume "\<lfloor>y\<rfloor> = m"
    then show ?thesis using a by (simp add: round_half_even_def Let_def)
  next
    assume "\<lfloor>y\<rfloor> = m - 1"
    then show ?thesis using a by (simp add: round_half_even_def Let_def)
  qed
qed

lemma fl_zero: "fl 0 = Finite 0"
  by (simp add: fl_def)

lemma fl_one: "fl 1 = Finite 1"
proof -
  have "fl 1 = Finite (of_int 4503599627370496 * 2 powi (- 52))"
    by (rule fl_finite [where e = 0]) (simp_all add: round_half_even_eq)
  then show ?thesis by simp
qed

lemma py_round_zero: "py_round (Finite 0) n = Finite 0"
  by (simp add: py_round_def round_half_even_def fl_zero)

lemma cls_score_no_entries: "layout_shift pg = Some [] \<Longrightarrow> cls_score pg = Finite 0"
  by (simp add: cls_score_def)

lemma round_half_even_of_int: "round_half_even (of_int m) = m"
  by (rule round_half_even_eq) simp_all

lemma fl_exact:
  assumes "x \<noteq> 0"
    and "2 powi e \<le> \<bar>x\<bar>" and "\<bar>x\<bar> < 2 powi (e + 1)"
    and "- 1022 \<le> e" and "e \<le> 1023"
    and "x / 2 powi (e - 52) \<in> \<int>"
  shows "fl x = Finite x"
proof -
  from assms(6) obtain m where m: "x / 2 powi (e - 52) = of_int m"
    by (auto elim: Ints_cases)
  then have x: "of_int m * 2 powi (e - 52) = x"
    by (simp add: field_simps)
  have "(2::rat) powi (e + 1) \<le> 2 powi 1024"
    using assms(5) by (intro power_int_increasing) simp_all
  with assms(3) have small: "\<bar>x\<bar> < 2 ^ 1024" by simp
  have "fl x = Finite (of_int m * 2 powi (e - 52))"
  proof (rule fl_finite [where e = e])
    show "e - 52 = max e (- 1022) - 52" using assms(4) by simp
    show "round_half_even (x / 2 powi (e - 52)) = m"
      by (simp add: m round_half_even_of_int)
    show "\<bar>of_int m * 2 powi (e - 52)\<bar> < (2::rat) ^ 1024"
      using small by (simp only: x)
  qed (use assms in simp_all)
  then show ?thesis by (simp only: x)
qed

subsection \<open>Three runs of the interpreter\<close>

text \<open>
  \<open>round(12.125, 1)\<close> is the double nearest to 12.1.
\<close>

lemma fl_12_1: "fl (121 / 10) = Finite (6811694436397875 / 562949953421312)"
proof -
  have "fl (121 / 10) = Finite (of_int 6811694436397875 * 2 powi (- 49))"
    by (rule fl_finite [where e = 3]) (simp_all add: round_half_even_eq)
  then show ?thesis by simp
qed

lemma fl_97_8: "fl (97 / 8) = Finite (97 / 8)"
  by (rule fl_exact [where e = 3]) simp_all

lemma py_round_12_125: "py_round (Finite (97 / 8)) 1 = Finite (6811694436397875 / 562949953421312)"
proof -
  have "round_half_even (97 / 8 * 10 ^ 1) = 121"
    by (rule round_half_even_eq) simp_all
  then show ?thesis by (simp add: py_round_def fl_12_1)
qed

text \<open>
  For the sizes 12.25, 12, 12, 12 and 12 the sum is 60.25 and the quotient by 5 is the
  double nearest to 12.05, which lies above 12.05: \<open>round\<close> gives the double nearest to
  12.1, where the exact mean 12.05 would go to 12.0.
\<close>

lemma left_to_right_sum_example:
  "left_to_right_sum [49 / 4, 12, 12, 12, 12] = Finite (241 / 4)"
proof -
  have "fl (49 / 4) = Finite (49 / 4)"
    by (rule fl_exact [where e = 3]) simp_all
  moreover have "fl (97 / 4) = Finite (97 / 4)"
    by (rule fl_exact [where e = 4]) simp_all
  moreover have "fl (145 / 4) = Finite (145 / 4)"
    by (rule fl_exact [where e = 5]) simp_all
  moreover have "fl (193 / 4) = Finite (193 / 4)"
    by (rule fl_exact [where e = 5]) simp_all
  moreover have "fl (241 / 4) = Finite (241 / 4)"
    by (rule fl_exact [where e = 5]) simp_all
  ultimately show ?thesis
    by (simp add: left_to_right_sum_def)
qed

lemma fl_12_05: "fl (241 / 20) = Finite (3391773469363405 / 281474976710656)"
proof -
  have "fl (241 / 20) = Finite (of_int 6783546938726810 * 2 powi (- 49))"
    by (rule fl_finite [where e = 3]) (simp_all add: round_half_even_eq)
  then show ?thesis by simp
qed

lemma py_div_example:
  "py_div (Finite (241 / 4)) 5 = Inr (Finite (3391773469363405 / 281474976710656))"
proof -
  have "fl 5 = Finite 5"
    by (rule fl_exact [where e = 2]) simp_all
  then show ?thesis
    by (simp add: py_div_def fl_12_05)
qed

lemma py_round_12_05:
  "py_round (Finite (3391773469363405 / 281474976710656)) 1
     = Finite (6811694436397875 / 562949953421312)"
proof -
  have "round_half_even (3391773469363405 / 281474976710656 * 10 ^ 1) = 121"
    by (rule round_half_even_eq) simp_all
  then show ?thesis by (simp add: py_round_def fl_12_1)
qed

text \<open>
  \<open>round(12.25, 1)\<close> is the double nearest to 12.2, the tie going to the even digit;
  that double lies below 12.2.
\<close>

lemma py_round_12_25:
  "py_round (Finite (49 / 4)) 1 = Finite (3433994715870003 / 281474976710656)
   \<and> (3433994715870003 / 281474976710656 :: rat) < 49 / 4 - 1 / 20"
proof -
  have tie: "round_half_even (245 / 2) = 122"
    by (simp add: round_half_even_def floor_rat_numeral)
  have "fl (122 / 10) = Finite (of_int 6867989431740006 * 2 powi (- 49))"
    by (rule fl_finite [where e = 3]) (simp_all add: round_half_even_eq)
  then have "fl (122 / 10) = Finite (3433994715870003 / 281474976710656)"
    by simp
  then show ?thesis by (simp add: py_round_def tie)
qed

subsection \<open>What the two scripts return\<close>

lemma run_calls_never: "run_calls never n cs w = (Inr (), fold effect cs w)"
  by (induction cs arbitrary: n w) (simp_all add: never_def)

lemma meta_eq:
  "meta pg = Inr
     \<lparr> og_title = Option.bind (query_selector pg [Tag_attr ''meta'' ''property'' ''og:title''])
                   (\<lambda>el. getAttribute el ''content''),
       og_description =
         Option.bind (query_selector pg [Tag_attr ''meta'' ''property'' ''og:description''])
                   (\<lambda>el. getAttribute el ''content''),
       og_image = Option.bind (query_selector pg [Tag_attr ''meta'' ''property'' ''og:image''])
                   (\<lambda>el. getAttribute el ''content''),
       og_url = Option.bind (query_selector pg [Tag_attr ''meta'' ''property'' ''og:url''])
                   (\<lambda>el. getAttribute el ''content''),
       twitter_card = Option.bind (query_selector pg [Tag_attr ''meta'' ''name'' ''twitter:card''])
                   (\<lambda>el. getAttribute el ''content''),
       twitter_title =
         Option.bind (query_selector pg [Tag_attr ''meta'' ''name'' ''twitter:title''])
                   (\<lambda>el. getAttribute el ''content''),
       canonical = Option.bind (query_selector pg [Tag_attr ''link'' ''rel'' ''canonical''])
                   (\<lambda>el. getAttribute el ''href''),
       robots = Option.bind (query_selector pg [Tag_attr ''meta'' ''name'' ''robots''])
                   (\<lambda>el. getAttribute el ''content''),
       viewport = Option.bind (query_selector pg [Tag_attr ''meta'' ''name'' ''viewport''])
                   (\<lambda>el. getAttribute el ''content'') \<rparr>"
  unfolding meta_def get_meta_eq bind_Inr ..

lemma audit_body_cases:
  "audit_body py_sum url vw vh pg =
     (case avg_font py_sum pg of
        Inl e \<Rightarrow> Inl e
      | Inr avg \<Rightarrow> Inr
          \<lparr> rp_url = url,
            rp_viewport = show_int vw @ ''x'' @ show_int vh,
            rp_cls_score = py_round (cls_score pg) 4,
            rp_headings = headings pg,
            rp_small_tap_targets_count = length (small_targets pg),
            rp_small_tap_targets_sample = slice_to 5 (small_targets pg),
            rp_meta = projr (meta pg),
            rp_structured_data_count = length (ld_json_blocks pg),
            rp_structured_data = ld_json_blocks pg,
            rp_images = images pg,
            rp_images_missing_alt = filter (\<lambda>i. \<not> i_hasAlt i) (images pg),
            rp_fonts = font_faces pg,
            rp_min_above_fold_font_px = projr (min_font pg),
            rp_avg_above_fold_font_px = avg \<rparr>)"
proof -
  have m: "meta pg = Inr (projr (meta pg))"
    by (simp add: meta_eq)
  have f: "min_font pg = Inr (projr (min_font pg))"
    by (simp add: min_font_eq)
  show ?thesis
    unfolding audit_body_def
    by (subst m, subst f) (simp add: bind_def split: sum.splits)
qed

lemma audit_body_eq:
  assumes "audit_body py_sum url vw vh pg = Inr r"
  shows "r =
     \<lparr> rp_url = url,
       rp_viewport = show_int vw @ ''x'' @ show_int vh,
       rp_cls_score = py_round (cls_score pg) 4,
       rp_headings = headings pg,
       rp_small_tap_targets_count = length (small_targets pg),
       rp_small_tap_targets_sample = slice_to 5 (small_targets pg),
       rp_meta = projr (meta pg),
       rp_structured_data_count = length (ld_json_blocks pg),
       rp_structured_data = ld_json_blocks pg,
       rp_images = images pg,
       rp_images_missing_alt = filter (\<lambda>i. \<not> i_hasAlt i) (images pg),
       rp_fonts = font_faces pg,
       rp_min_above_fold_font_px = projr (min_font pg),
       rp_avg_above_fold_font_px = projr (avg_font py_sum pg) \<rparr>"
  using assms unfolding audit_body_cases by (auto split: sum.splits)

lemma audit_body_returns:
  "avg_font py_sum pg = Inr avg \<Longrightarrow>
     audit_body py_sum url vw vh pg = Inr (projr (audit_body py_sum url vw vh pg))"
  unfolding audit_body_cases by simp

lemma avg_font_no_sizes: "body_font_sizes pg = [] \<Longrightarrow> avg_font py_sum pg = Inr None"
  by (simp add: avg_font_def)

lemma audit_body_no_sizes:
  "body_font_sizes pg = [] \<Longrightarrow>
     audit_body py_sum url vw vh pg = Inr
       \<lparr> rp_url = url,
         rp_viewport = show_int vw @ ''x'' @ show_int vh,
         rp_cls_score = py_round (cls_score pg) 4,
         rp_headings = headings pg,
         rp_small_tap_targets_count = length (small_targets pg),
         rp_small_tap_targets_sample = slice_to 5 (small_targets pg),
         rp_meta = projr (meta pg),
         rp_structured_data_count = length (ld_json_blocks pg),
         rp_structured_data = ld_json_blocks pg,
         rp_images = images pg,
         rp_images_missing_alt = filter (\<lambda>i. \<not> i_hasAlt i) (images pg),
         rp_fonts = font_faces pg,
         rp_min_above_fold_font_px = None,
         rp_avg_above_fold_font_px = None \<rparr>"
  by (simp add: audit_body_cases avg_font_no_sizes min_font_eq)

lemma audit_returned:
  "fst (audit raises py_sum url vw vh pg) = Inr r \<Longrightarrow> audit_body py_sum url vw vh pg = Inr r"
  by (auto simp: audit_def split: prod.splits sum.splits)

lemma audit_never: "fst (audit never py_sum url vw vh pg) = audit_body py_sum url vw vh pg"
  by (simp add: audit_def with_sync_playwright_def run_calls_never never_def [of 0])

lemma audit_never_returns:
  "body_font_sizes pg = [] \<Longrightarrow>
     fst (audit never py_sum url vw vh pg) = Inr (projr (audit_body py_sum url vw vh pg))"
  unfolding audit_never by (rule audit_body_returns) (rule avg_font_no_sizes)

lemma capture_returned:
  "fst (capture raises url out pg) = Inr r \<Longrightarrow> r = capture_body pg"
  by (auto simp: capture_def split: prod.splits sum.splits)

lemma capture_never: "fst (capture never url out pg) = Inr (capture_body pg)"
  by (simp add: capture_def with_sync_playwright_def run_calls_never never_def [of 0])

section \<open>The headings of the screenshot report\<close>

text \<open>
  Claim C9. The \<open>h2s\<close> list of the report returned by \<open>capture\<close> has at most 5
  entries: it is the trimmed texts of the first five \<open>h2\<close> elements in document order,
  also when the page has more of them. The \<open>h1s\<close> list is not cut: it has one entry for
  each \<open>h1\<close> element.
\<close>

theorem capture_h2s_first_five:
  assumes "fst (capture raises url out pg) = Inr r"
  shows "length (cr_h2s r) \<le> 5
    \<and> cr_h2s r = take 5 (map (\<lambda>e. trim (innerText e))
                            (filter (\<lambda>e. localName e = ''h2'') (elements pg)))
    \<and> length (cr_h2s r) = min 5 (length (filter (\<lambda>e. localName e = ''h2'') (elements pg)))
    \<and> cr_h1s r = map (\<lambda>e. trim (innerText e))
                    (filter (\<lambda>e. localName e = ''h1'') (elements pg))
    \<and> length (cr_h1s r) = length (filter (\<lambda>e. localName e = ''h1'') (elements pg))"
proof -
  have r: "r = capture_body pg"
    using assms by (rule capture_returned)
  have sel: "query_selector_all pg [Tag t] = filter (\<lambda>e. localName e = t) (elements pg)" for t
    by (simp add: query_selector_all_def matches_Tag)
  show ?thesis
    by (simp add: r capture_body_def h1s_def h2s_def sel slice_to_def min.commute)
qed

theorem capture_h2s_first_five_witness:
  "fst (capture never [] [] page_titles) = Inr (capture_body page_titles)
   \<and> cr_h2s (capture_body page_titles) = [''1'', ''2'', ''3'', ''4'', ''5'']
   \<and> length (cr_h1s (capture_body page_titles)) = 6"
proof -
  have ret: "fst (capture never [] [] page_titles) = Inr (capture_body page_titles)"
    by (rule capture_never)
  have els: "filter (\<lambda>e. localName e = ''h2'') (elements page_titles)
      = map (title_element ''h2'') [''1'', ''2'', ''3'', ''4'', ''5'', ''6'', ''7'']"
    "filter (\<lambda>e. localName e = ''h1'') (elements page_titles)
      = map (title_element ''h1'') [''A'', ''B'', ''C'', ''D'', ''E'', ''F'']"
    by (simp_all add: page_titles_def page_of_def title_element_def blank_def)
  have inner: "trim (innerText (title_element n [c])) = (if is_ws c then [] else [c])" for n c
    by (simp add: title_element_def blank_def trim_def)
  from capture_h2s_first_five [OF ret] show ?thesis
    by (simp add: ret els inner is_ws_def)
qed

section \<open>The small tap targets of the audit report\<close>

text \<open>
  Claim C10. The audit report has no field for the whole list of small tap targets. Its
  \<open>small_tap_targets_count\<close> is the number of tap targets whose \<open>tooSmall\<close> is true,
  and its \<open>small_tap_targets_sample\<close> is a prefix of the list of those targets, of
  length \<open>min 5 small_tap_targets_count\<close>.
\<close>

theorem small_tap_targets_count_and_sample:
  assumes "fst (audit raises py_sum url vw vh pg) = Inr r"
  shows "rp_small_tap_targets_count r = length (filter t_tooSmall (tap_targets pg))
    \<and> rp_small_tap_targets_sample r = take 5 (filter t_tooSmall (tap_targets pg))
    \<and> prefix (rp_small_tap_targets_sample r) (filter t_tooSmall (tap_targets pg))
    \<and> length (rp_small_tap_targets_sample r) = min 5 (rp_small_tap_targets_count r)"
proof -
  have "audit_body py_sum url vw vh pg = Inr r"
    using assms by (rule audit_returned)
  then have "rp_small_tap_targets_count r = length (small_targets pg)"
    and "rp_small_tap_targets_sample r = slice_to 5 (small_targets pg)"
    by (auto dest: audit_body_eq)
  then show ?thesis
    by (simp add: small_targets_def slice_to_def take_is_prefix min.commute)
qed

theorem small_tap_targets_count_and_sample_witness:
  "fst (audit never left_to_right_sum [] 1440 900 page_six_links)
     = Inr (projr (audit_body left_to_right_sum [] 1440 900 page_six_links))
   \<and> rp_small_tap_targets_count (projr (audit_body left_to_right_sum [] 1440 900 page_six_links)) = 6
   \<and> length (rp_small_tap_targets_sample (projr (audit_body left_to_right_sum [] 1440 900 page_six_links))) = 5"
proof -
  have ret: "fst (audit never left_to_right_sum [] 1440 900 page_six_links)
      = Inr (projr (audit_body left_to_right_sum [] 1440 900 page_six_links))"
    by (rule audit_never_returns) code_simp
  have six: "length (filter t_tooSmall (tap_targets page_six_links)) = 6"
    by code_simp
  from small_tap_targets_count_and_sample [OF ret] show ?thesis
    by (simp add: ret six)
qed

section \<open>Teardown of the browser\<close>

lemma with_sync_playwright_stops:
  assumes "\<not> browser_running w" and "\<not> driver_running w"
  shows "\<not> browser_running (snd (with_sync_playwright raises body w))
    \<and> \<not> driver_running (snd (with_sync_playwright raises body w))"
  using assms
  by (simp add: with_sync_playwright_def playwright_stop_def split: prod.splits)

text \<open>
  Claim C8. On every exit path of \<open>capture\<close> and \<open>audit\<close>, whichever call
  raises (none, the navigation, an extraction, the screenshot, \<open>browser.close()\<close>
  itself), the browser that was launched is no longer running when the call returns or
  the error leaves the function. \<open>browser.close()\<close> is reached on the success path
  only; on the others the exit of the \<open>with\<close> block ends the browser, as the example
  after the theorem shows for a navigation that fails.
\<close>

theorem browser_torn_down_on_every_path:
  "\<not> browser_running (snd (audit raises py_sum url vw vh pg))
   \<and> \<not> driver_running (snd (audit raises py_sum url vw vh pg))
   \<and> \<not> browser_running (snd (capture raises url out pg))
   \<and> \<not> driver_running (snd (capture raises url out pg))"
proof -
  have init: "\<not> browser_running initial_world" "\<not> driver_running initial_world"
    by (simp_all add: initial_world_def)
  have a: "snd (audit raises py_sum url vw vh pg)
      = snd (with_sync_playwright raises (audit_calls pg) initial_world)"
    by (simp add: audit_def split: prod.splits sum.splits)
  have c: "snd (capture raises url out pg)
      = snd (with_sync_playwright raises (capture_calls pg) initial_world)"
    by (simp add: capture_def split: prod.splits sum.splits)
  show ?thesis
    unfolding a c using with_sync_playwright_stops [OF init] by simp
qed

theorem browser_torn_down_on_every_path_witness:
  "fst (audit (only_at 5) left_to_right_sum [] 1440 900 page_narrow_link) = Inl (Raised Goto)
   \<and> browser_running (snd (run_calls (only_at 5) 1 (audit_calls page_narrow_link)
        (initial_world \<lparr> driver_running := True \<rparr>)))
   \<and> \<not> browser_running (snd (audit (only_at 5) left_to_right_sum [] 1440 900 page_narrow_link))"
proof -
  have run: "run_calls (only_at 5) 1 (audit_calls page_narrow_link)
        (initial_world \<lparr> driver_running := True \<rparr>)
      = (Inl (Raised Goto), \<lparr> driver_running = True, browser_running = True \<rparr>)"
    by (simp add: audit_calls_def only_at_def initial_world_def)
  have res: "fst (audit (only_at 5) left_to_right_sum [] 1440 900 page_narrow_link) = Inl (Raised Goto)"
    unfolding audit_def with_sync_playwright_def run
    by (simp add: only_at_def)
  from browser_torn_down_on_every_path [of "only_at 5" left_to_right_sum "[]" 1440 900 page_narrow_link "[]"]
  show ?thesis by (simp add: run [unfolded One_nat_def] res)
qed

section \<open>Images and their alt texts\<close>

lemma trim_empty_iff: "trim s = [] \<longleftrightarrow> (\<forall>c \<in> set s. is_ws c)"
proof
  assume "trim s = []"
  then have all: "\<forall>c \<in> set (dropWhile is_ws s). is_ws c"
    by (simp add: trim_def dropWhile_eq_Nil_conv)
  show "\<forall>c \<in> set s. is_ws c"
  proof (cases "dropWhile is_ws s")
    case Nil
    then show ?thesis by (simp add: dropWhile_eq_Nil_conv)
  next
    case (Cons c cs)
    then have "\<not> is_ws c" using hd_dropWhile [of is_ws s] by simp
    with all Cons show ?thesis by simp
  qed
next
  assume "\<forall>c \<in> set s. is_ws c"
  then have "dropWhile is_ws s = []" by (simp add: dropWhile_eq_Nil_conv)
  then show "trim s = []" by (simp only: trim_def rev.simps dropWhile.simps)
qed

lemma hasAlt_iff:
  "i_hasAlt (image_of el) \<longleftrightarrow> (\<exists>a. getAttribute el ''alt'' = Some a \<and> trim a \<noteq> [])"
  by (cases "getAttribute el ''alt''")
    (auto simp: image_of_def Let_def or_string_def js_or_def truthy_def trim_def)

text \<open>
  Claim C6. In the audit report, \<open>images_missing_alt\<close> is exactly the sublist of
  \<open>images\<close> whose \<open>hasAlt\<close> is false, and for every image \<open>hasAlt\<close> is true
  if and only if its alt attribute is not null and is not empty after trimming, that is,
  holds a character that is not white space.
\<close>

theorem images_missing_alt_exact:
  assumes "fst (audit raises py_sum url vw vh pg) = Inr r"
  shows "rp_images_missing_alt r = filter (\<lambda>i. \<not> i_hasAlt i) (rp_images r)
    \<and> rp_images r = map image_of (filter (\<lambda>e. localName e = ''img'') (elements pg))
    \<and> (\<forall>el. i_alt (image_of el) = getAttribute el ''alt'')
    \<and> (\<forall>i \<in> set (rp_images r).
          i_hasAlt i \<longleftrightarrow> (\<exists>a. i_alt i = Some a \<and> trim a \<noteq> []))
    \<and> (\<forall>i \<in> set (rp_images r).
          i_hasAlt i \<longleftrightarrow> (\<exists>a. i_alt i = Some a \<and> (\<exists>c \<in> set a. \<not> is_ws c)))"
proof -
  have "audit_body py_sum url vw vh pg = Inr r"
    using assms by (rule audit_returned)
  then have r: "rp_images r = images pg"
    "rp_images_missing_alt r = filter (\<lambda>i. \<not> i_hasAlt i) (images pg)"
    by (auto dest: audit_body_eq)
  have alt: "i_alt (image_of el) = getAttribute el ''alt''" for el
    by (simp add: image_of_def Let_def)
  have has: "i_hasAlt i \<longleftrightarrow> (\<exists>a. i_alt i = Some a \<and> trim a \<noteq> [])"
    if "i \<in> set (images pg)" for i
    using that by (auto simp: images_def hasAlt_iff alt)
  show ?thesis
    using has by (simp add: r alt trim_empty_iff) (simp add: images_def query_selector_all_def matches_Tag)
qed

theorem images_missing_alt_exact_witness:
  "fst (audit never left_to_right_sum [] 1440 900 page_pictures)
     = Inr (projr (audit_body left_to_right_sum [] 1440 900 page_pictures))
   \<and> map i_hasAlt (rp_images (projr (audit_body left_to_right_sum [] 1440 900 page_pictures)))
       = [True, False, False]
   \<and> map i_alt (rp_images_missing_alt (projr (audit_body left_to_right_sum [] 1440 900 page_pictures)))
       = [Some ''  '', None]"
proof -
  have ret: "fst (audit never left_to_right_sum [] 1440 900 page_pictures)
      = Inr (projr (audit_body left_to_right_sum [] 1440 900 page_pictures))"
    by (rule audit_never_returns) code_simp
  have imgs: "map image_of (filter (\<lambda>e. localName e = ''img'') (elements page_pictures))
      = [\<lparr> i_src = ''/a.png'', i_alt = Some ''Team'', i_hasAlt = True,
             i_width = 200, i_height = 100 \<rparr>,
         \<lparr> i_src = ''/b.png'', i_alt = Some ''  '', i_hasAlt = False,
             i_width = 200, i_height = 100 \<rparr>,
         \<lparr> i_src = ''/c.png'', i_alt = None, i_hasAlt = False,
             i_width = 200, i_height = 100 \<rparr>]"
    by code_simp
  from images_missing_alt_exact [OF ret] show ?thesis
    by (simp add: ret imgs)
qed

section \<open>Tap targets and their reported sizes\<close>

lemma Math_round_le_44: "x < 44 \<Longrightarrow> Math_round x \<le> 44"
  unfolding Math_round_def by (simp add: floor_le_iff)

lemma Math_round_zero: "Math_round 0 = 0"
  unfolding Math_round_def by (simp add: floor_eq_iff)

lemma tap_targets_origin:
  "t \<in> set (tap_targets pg) \<Longrightarrow>
     \<exists>el \<in> set (query_selector_all pg [Tag ''a'', Tag ''button'']).
        t = tap_target_of el \<and> 0 < t_width t \<and> 0 < t_height t"
  by (auto simp: tap_targets_def)

text \<open>
  Claim C1 says that every small tap target has a reported width or height below 44. The
  \<open>tooSmall\<close> flag is computed on the unrounded rectangle, the reported fields are
  rounded: a link 43.75 pixels wide and 50 high is small and is reported 44 by 50.
\<close>

theorem small_targets_counterexample:
  "small_targets page_narrow_link =
     [\<lparr> t_text = ''Pricing'', t_tag = ''A'', t_width = 44, t_height = 50, t_top = 10,
         t_tooSmall = True \<rparr>]
   \<and> map_sum id rp_small_tap_targets_sample (fst (audit never left_to_right_sum [] 1440 900 page_narrow_link)) =
       Inr [\<lparr> t_text = ''Pricing'', t_tag = ''A'', t_width = 44, t_height = 50, t_top = 10,
              t_tooSmall = True \<rparr>]
   \<and> \<not> ((44::int) < 44 \<or> (50::int) < 44)"
proof -
  have s: "small_targets page_narrow_link =
     [\<lparr> t_text = ''Pricing'', t_tag = ''A'', t_width = 44, t_height = 50, t_top = 10,
         t_tooSmall = True \<rparr>]"
    by code_simp
  have sizes: "body_font_sizes page_narrow_link = []"
    by code_simp
  show ?thesis
    by (simp add: audit_never audit_body_no_sizes [OF sizes] s slice_to_def)
qed

text \<open>
  Claim C1, amended. Every element of the small tap targets is an element of the tap
  targets and has \<open>tooSmall\<close> true; \<open>tooSmall\<close> of a tap target says that the
  unrounded width or height of its element is below 44, so that its reported width or
  height is at most 44. Every tap target has a positive reported width and height, and an
  element of width or height zero yields no tap target.
\<close>

theorem small_targets_sound:
  "(\<forall>t \<in> set (small_targets pg).
      t \<in> set (tap_targets pg) \<and> t_tooSmall t \<and> (t_width t \<le> 44 \<or> t_height t \<le> 44))
   \<and> (\<forall>t \<in> set (tap_targets pg).
        \<exists>el \<in> set (query_selector_all pg [Tag ''a'', Tag ''button'']).
          t = tap_target_of el
          \<and> (t_tooSmall t \<longleftrightarrow> r_width (boundingClientRect el) < 44
                                \<or> r_height (boundingClientRect el) < 44))
   \<and> (\<forall>t \<in> set (tap_targets pg). 0 < t_width t \<and> 0 < t_height t)
   \<and> (\<forall>el. r_width (boundingClientRect el) = 0 \<or> r_height (boundingClientRect el) = 0
          \<longrightarrow> tap_target_of el \<notin> set (tap_targets pg))"
proof (intro conjI ballI allI impI)
  fix t assume "t \<in> set (small_targets pg)"
  then have t: "t \<in> set (tap_targets pg)" and small: "t_tooSmall t"
    by (simp_all add: small_targets_def)
  from t obtain el where "t = tap_target_of el"
    using tap_targets_origin by blast
  with small have "t_width t \<le> 44 \<or> t_height t \<le> 44"
    by (auto simp: tap_target_of_def Let_def Math_round_le_44)
  with t small show "t \<in> set (tap_targets pg)" "t_tooSmall t"
    "t_width t \<le> 44 \<or> t_height t \<le> 44"
    by simp_all
next
  fix t assume "t \<in> set (tap_targets pg)"
  then obtain el where "el \<in> set (query_selector_all pg [Tag ''a'', Tag ''button''])"
    and "t = tap_target_of el"
    using tap_targets_origin by blast
  then show "\<exists>el \<in> set (query_selector_all pg [Tag ''a'', Tag ''button'']).
          t = tap_target_of el
          \<and> (t_tooSmall t \<longleftrightarrow> r_width (boundingClientRect el) < 44
                                \<or> r_height (boundingClientRect el) < 44)"
    by (auto simp: tap_target_of_def Let_def)
next
  fix t assume "t \<in> set (tap_targets pg)"
  then show "0 < t_width t" "0 < t_height t"
    by (simp_all add: tap_targets_def)
next
  fix el :: element
  assume "r_width (boundingClientRect el) = 0 \<or> r_height (boundingClientRect el) = 0"
  then have "t_width (tap_target_of el) = 0 \<or> t_height (tap_target_of el) = 0"
    by (auto simp: tap_target_of_def Let_def Math_round_zero)
  then show "tap_target_of el \<notin> set (tap_targets pg)"
    by (auto simp: tap_targets_def)
qed

theorem small_targets_sound_witness:
  "small_targets page_narrow_link = [tap_target_of narrow_link]
   \<and> tap_targets page_narrow_link = [tap_target_of narrow_link]
   \<and> t_tooSmall (tap_target_of narrow_link)
   \<and> t_width (tap_target_of narrow_link) = 44
   \<and> r_width (boundingClientRect narrow_link) = 175 / 4
   \<and> tap_target_of blank \<notin> set (tap_targets page_narrow_link)"
proof -
  have l: "small_targets page_narrow_link = [tap_target_of narrow_link]"
    "tap_targets page_narrow_link = [tap_target_of narrow_link]"
    "r_width (boundingClientRect blank) = 0"
    "r_width (boundingClientRect narrow_link) = 175 / 4"
    by code_simp+
  from small_targets_sound [of page_narrow_link] have
    "t_tooSmall (tap_target_of narrow_link)"
    "t_width (tap_target_of narrow_link) \<le> 44 \<or> t_height (tap_target_of narrow_link) \<le> 44"
    "tap_target_of blank \<notin> set (tap_targets page_narrow_link)"
    by (simp_all add: l)
  moreover have "t_width (tap_target_of narrow_link) = 44"
    by code_simp
  ultimately show ?thesis by (simp add: l)
qed

section \<open>Font sizes above the fold\<close>

lemma body_font_sizes_empty_iff:
  "body_font_sizes pg = [] \<longleftrightarrow>
     \<not> (\<exists>el \<in> set (query_selector_all pg [Tag ''p'', Tag ''span'', Tag ''li'']).
           in_viewport pg (boundingClientRect el)
           \<and> 0 < r_height (boundingClientRect el) \<and> 0 < fontSize el)"
  by (auto simp: body_font_sizes_def in_viewport_def Let_def filter_empty_conv)

lemma body_font_sizes_eq:
  "body_font_sizes pg =
     map fontSize
       (filter (\<lambda>el. 0 < fontSize el)
          (filter (\<lambda>el. in_viewport pg (boundingClientRect el)
                         \<and> 0 < r_height (boundingClientRect el))
             (filter (\<lambda>el. localName el = ''p'' \<or> localName el = ''span''
                            \<or> localName el = ''li'')
                (elements pg))))"
proof -
  have sel: "matches [Tag ''p'', Tag ''span'', Tag ''li'']
      = (\<lambda>el. localName el = ''p'' \<or> localName el = ''span'' \<or> localName el = ''li'')"
    by (rule ext) (simp add: matches_def)
  show ?thesis
    by (simp add: body_font_sizes_def query_selector_all_def sel filter_map o_def
        in_viewport_def Let_def)
qed

lemma body_font_sizes_positive: "x \<in> set (body_font_sizes pg) \<Longrightarrow> 0 < x"
  by (auto simp: body_font_sizes_def)

lemma avg_font_fine_print:
  "avg_font left_to_right_sum page_fine_print
     = Inr (Some (Finite (6811694436397875 / 562949953421312)))"
proof -
  have sizes: "body_font_sizes page_fine_print = [97 / 8]"
    by code_simp
  have total: "left_to_right_sum [97 / 8] = Finite (97 / 8)"
    by (simp add: left_to_right_sum_def fl_97_8)
  have quotient: "py_div (Finite (97 / 8)) (Suc 0) = Inr (Finite (97 / 8))"
    by (simp add: py_div_def fl_one fl_97_8)
  show ?thesis
    by (simp add: avg_font_def sizes total quotient bind_Inr
        py_round_12_125 [unfolded One_nat_def])
qed

text \<open>
  Claim C2 says that the minimum is at most the average, and that both are null exactly
  when the page has no \<open>p\<close>, \<open>span\<close> or \<open>li\<close> element in the viewport. The
  average is rounded to one decimal place and the minimum is not: one paragraph of
  12.125 pixels gives the minimum 12.125 and the average 12.1 (the double nearest to it;
  the sum of a list of one number is that number, whatever the interpreter).
  Elements of height 0 or of font size 0 are left out: a page whose only paragraph is in
  the viewport and has height 0 gives null for both.
\<close>

theorem font_stats_counterexample:
  "map_sum id rp_min_above_fold_font_px
       (fst (audit never left_to_right_sum [] 1440 900 page_fine_print))
     = Inr (Some (97 / 8))
   \<and> map_sum id rp_avg_above_fold_font_px
       (fst (audit never left_to_right_sum [] 1440 900 page_fine_print))
     = Inr (Some (Finite (6811694436397875 / 562949953421312)))
   \<and> \<not> ((97 / 8 :: rat) \<le> 6811694436397875 / 562949953421312)
   \<and> map_sum id rp_min_above_fold_font_px
       (fst (audit never left_to_right_sum [] 1440 900 page_empty_paragraph))
     = Inr None
   \<and> map_sum id rp_avg_above_fold_font_px
       (fst (audit never left_to_right_sum [] 1440 900 page_empty_paragraph))
     = Inr None
   \<and> query_selector_all page_empty_paragraph [Tag ''p'', Tag ''span'', Tag ''li'']
     = [empty_paragraph]
   \<and> in_viewport page_empty_paragraph (boundingClientRect empty_paragraph)"
proof -
  have sizes: "body_font_sizes page_fine_print = [97 / 8]"
    "body_font_sizes page_empty_paragraph = []"
    by code_simp+
  have sel: "query_selector_all page_empty_paragraph [Tag ''p'', Tag ''span'', Tag ''li'']
     = [empty_paragraph]"
    "in_viewport page_empty_paragraph (boundingClientRect empty_paragraph)"
    by code_simp+
  show ?thesis
    by (simp add: audit_never audit_body_cases min_font_eq sizes sel avg_font_fine_print
        avg_font_no_sizes)
qed

text \<open>
  Claim C2, amended. Both values are null if and only if no \<open>p\<close>, \<open>span\<close> or
  \<open>li\<close> element is in the viewport with a positive height and a positive computed font
  size. When they are not null, the minimum is the least of the sizes of those elements,
  hence positive, and the average is Python's sum of these sizes divided by their number,
  the quotient rounded to one decimal place; the average can be smaller than the minimum.
\<close>

theorem font_stats:
  assumes "fst (audit raises py_sum url vw vh pg) = Inr r"
  shows "(rp_min_above_fold_font_px r = None \<longleftrightarrow> body_font_sizes pg = [])
    \<and> (rp_avg_above_fold_font_px r = None \<longleftrightarrow> body_font_sizes pg = [])
    \<and> (body_font_sizes pg = [] \<longleftrightarrow>
         \<not> (\<exists>el \<in> set (query_selector_all pg [Tag ''p'', Tag ''span'', Tag ''li'']).
               in_viewport pg (boundingClientRect el)
               \<and> 0 < r_height (boundingClientRect el) \<and> 0 < fontSize el))
    \<and> body_font_sizes pg =
         map fontSize
           (filter (\<lambda>el. 0 < fontSize el)
              (filter (\<lambda>el. in_viewport pg (boundingClientRect el)
                             \<and> 0 < r_height (boundingClientRect el))
                 (filter (\<lambda>el. localName el = ''p'' \<or> localName el = ''span''
                                \<or> localName el = ''li'')
                    (elements pg))))
    \<and> (body_font_sizes pg \<noteq> [] \<longrightarrow>
          rp_min_above_fold_font_px r = Some (Min (set (body_font_sizes pg)))
          \<and> 0 < Min (set (body_font_sizes pg))
          \<and> (\<exists>q. py_div (py_sum (body_font_sizes pg)) (length (body_font_sizes pg)) = Inr q
                 \<and> rp_avg_above_fold_font_px r = Some (py_round q 1)))"
proof -
  have body: "audit_body py_sum url vw vh pg = Inr r"
    using assms by (rule audit_returned)
  then have mn: "rp_min_above_fold_font_px r =
      (if body_font_sizes pg = [] then None else Some (Min (set (body_font_sizes pg))))"
    by (auto dest: audit_body_eq simp: min_font_eq)
  from body have av: "avg_font py_sum pg = Inr (rp_avg_above_fold_font_px r)"
    unfolding audit_body_cases by (auto split: sum.splits)
  have empty: "rp_avg_above_fold_font_px r = None" if "body_font_sizes pg = []"
    using av that by (simp add: avg_font_def)
  have nonempty: "\<exists>q. py_div (py_sum (body_font_sizes pg)) (length (body_font_sizes pg)) = Inr q
      \<and> rp_avg_above_fold_font_px r = Some (py_round q 1)"
    if "body_font_sizes pg \<noteq> []"
    using av that by (auto simp: avg_font_def bind_def Let_def split: sum.splits)
  have pos: "0 < Min (set (body_font_sizes pg))" if "body_font_sizes pg \<noteq> []"
    using that body_font_sizes_positive [of "Min (set (body_font_sizes pg))" pg] by simp
  have avg_none: "rp_avg_above_fold_font_px r = None \<longleftrightarrow> body_font_sizes pg = []"
    using empty nonempty by (cases "body_font_sizes pg = []") auto
  show ?thesis
    using avg_none nonempty pos body_font_sizes_empty_iff [of pg] body_font_sizes_eq [of pg]
    by (simp add: mn)
qed

theorem font_stats_witness:
  "fst (audit never left_to_right_sum [] 1440 900 page_fine_print)
     = Inr (projr (audit_body left_to_right_sum [] 1440 900 page_fine_print))
   \<and> body_font_sizes page_fine_print = [97 / 8]
   \<and> rp_min_above_fold_font_px (projr (audit_body left_to_right_sum [] 1440 900 page_fine_print))
       = Some (97 / 8)
   \<and> rp_avg_above_fold_font_px (projr (audit_body left_to_right_sum [] 1440 900 page_fine_print))
       = Some (Finite (6811694436397875 / 562949953421312))"
proof -
  have ret: "fst (audit never left_to_right_sum [] 1440 900 page_fine_print)
      = Inr (projr (audit_body left_to_right_sum [] 1440 900 page_fine_print))"
    unfolding audit_never by (rule audit_body_returns) (rule avg_font_fine_print)
  have sizes: "body_font_sizes page_fine_print = [97 / 8]"
    by code_simp
  have avg: "rp_avg_above_fold_font_px
        (projr (audit_body left_to_right_sum [] 1440 900 page_fine_print))
      = Some (Finite (6811694436397875 / 562949953421312))"
    by (simp add: audit_body_cases avg_font_fine_print)
  from font_stats [OF ret] have "rp_min_above_fold_font_px
        (projr (audit_body left_to_right_sum [] 1440 900 page_fine_print)) = Some (97 / 8)"
    by (simp add: sizes)
  with ret sizes avg show ?thesis by simp
qed

section \<open>The layout shift score\<close>

text \<open>
  Claim C7 says that the \<open>cls_score\<close> of the report is the sum of the layout shifts
  accumulated since the start of the session. The script announces a measurement through
  a \<open>PerformanceObserver\<close> and reads \<open>performance.getEntriesByType("layout-shift")\<close>
  instead. Layout-shift entries are not available from the performance timeline (its
  entry type registry has them delivered to observers only), so the query returns no
  entry on a page whose content did shift, and the reported score is 0.
\<close>

theorem cls_score_without_timeline_entries:
  "layout_shift page_late_image = Some []
   \<and> map_sum id rp_cls_score (fst (audit never left_to_right_sum [] 1440 900 page_late_image))
     = Inr (Finite 0)"
proof -
  have sizes: "body_font_sizes page_late_image = []"
    by code_simp
  have entries: "layout_shift page_late_image = Some []"
    by (simp add: page_late_image_def)
  show ?thesis
    by (simp add: audit_never audit_body_no_sizes [OF sizes] entries
        cls_score_no_entries [OF entries] py_round_zero)
qed

section \<open>The above-fold and visible flags\<close>

text \<open>
  The flag of a heading and the flag of a call-to-action candidate both test the top of
  the rectangle against the viewport height and its bottom against 0. The flag of a logo
  candidate tests the top only.
\<close>

lemma heading_aboveFold_eq:
  "h_aboveFold (heading_of pg el) = in_viewport pg (boundingClientRect el)"
  by (simp add: heading_of_def in_viewport_def Let_def)

lemma cta_visible_eq:
  "c_visible (cta_of pg el) = in_viewport pg (boundingClientRect el)"
  by (simp add: cta_of_def in_viewport_def Let_def)

lemma logo_visible_eq:
  "l_visible (logo_of pg el) = (r_top (boundingClientRect el) < of_int (innerHeight pg))"
  by (simp add: logo_of_def Let_def)

text \<open>
  Claim C3 says that the flag of every heading, call-to-action candidate and logo
  candidate is \<open>top < viewport height\<close> and \<open>bottom > 0\<close>. For an svg inside the
  header that is not displayed (its rectangle is all zeros, so its bottom is not above 0)
  \<open>capture\<close> reports a logo candidate with \<open>visible\<close> true.
\<close>

theorem logo_visible_ignores_bottom:
  "map_sum id cr_logo_candidates (fst (capture never [] [] page_hidden_sprite))
     = Inr [\<lparr> l_tag = ''svg'', l_src = ''(svg)'', l_visible = True \<rparr>]
   \<and> query_selector_all page_hidden_sprite [Tag ''img'', Tag ''svg''] = [hidden_sprite]
   \<and> r_bottom (boundingClientRect hidden_sprite) = 0
   \<and> \<not> in_viewport page_hidden_sprite (boundingClientRect hidden_sprite)"
proof -
  have l: "logo_candidates page_hidden_sprite
      = [\<lparr> l_tag = ''svg'', l_src = ''(svg)'', l_visible = True \<rparr>]"
    "query_selector_all page_hidden_sprite [Tag ''img'', Tag ''svg''] = [hidden_sprite]"
    "r_bottom (boundingClientRect hidden_sprite) = 0"
    "\<not> in_viewport page_hidden_sprite (boundingClientRect hidden_sprite)"
    by code_simp+
  show ?thesis
    by (simp add: capture_never capture_body_def l)
qed

section \<open>The meta fields of the audit report\<close>

text \<open>
  Claim C4 says that a meta field is a string when its selector matches. For
  \<open><meta name="robots">\<close> without a content attribute the selector matches and the
  field is null.
\<close>

theorem meta_fields_counterexample:
  "query_selector page_bare_robots [Tag_attr ''meta'' ''name'' ''robots''] = Some bare_robots
   \<and> map_sum id (robots \<circ> rp_meta) (fst (audit never left_to_right_sum [] 1440 900 page_bare_robots)) = Inr None"
proof -
  have q: "query_selector page_bare_robots [Tag_attr ''meta'' ''name'' ''robots'']
      = Some bare_robots"
    by code_simp
  have a: "getAttribute bare_robots ''content'' = None"
    by code_simp
  have sizes: "body_font_sizes page_bare_robots = []"
    by code_simp
  show ?thesis
    by (simp add: audit_never audit_body_no_sizes [OF sizes] meta_eq q a)
qed

lemma avg_font_error: "avg_font py_sum pg = Inl e \<Longrightarrow> e = OverflowError"
  by (auto simp: avg_font_def py_div_def bind_def Let_def
      split: if_splits double.splits sum.splits)

lemma audit_errors:
  assumes "fst (audit raises py_sum url vw vh pg) = Inl e"
  shows "(\<exists>c. e = Raised c) \<or> e = OverflowError"
proof -
  have run: "fst (run_calls raises n cs w) = Inl e \<Longrightarrow> \<exists>c. e = Raised c" for n cs w
    by (induction cs arbitrary: n w) (auto split: if_splits)
  consider (calls) "fst (with_sync_playwright raises (audit_calls pg) initial_world) = Inl e"
    | (body) "audit_body py_sum url vw vh pg = Inl e"
    using assms by (auto simp: audit_def split: prod.splits sum.splits)
  then show ?thesis
  proof cases
    case calls
    then show ?thesis
      using run [of 1 "audit_calls pg" "initial_world\<lparr>driver_running := True\<rparr>"]
      by (auto simp: with_sync_playwright_def split: if_splits prod.splits)
  next
    case body
    then have "avg_font py_sum pg = Inl e"
      unfolding audit_body_cases by (auto split: sum.splits)
    then show ?thesis by (simp add: avg_font_error)
  qed
qed

text \<open>
  Claim C4, amended. Each of the nine meta fields of the audit report is the value of the
  attribute read (\<open>content\<close>, or \<open>href\<close> for the canonical link) on the first
  element matching the selector: a string when that element has the attribute, null
  when no element matches or the element lacks the attribute. The value of an attribute
  selector is compared as the browser compares it: without regard to ASCII case for
  \<open>rel\<close>, exactly for \<open>property\<close> and \<open>name\<close>. An absent selector raises no
  error: reading the nine fields always succeeds, and \<open>audit\<close> never raises
  AttributeError. Every report has all nine fields.
\<close>

theorem meta_fields:
  "fst (audit raises py_sum url vw vh pg) \<noteq> Inl AttributeError
   \<and> (\<exists>m. meta pg = Inr m)
   \<and> (fst (audit raises py_sum url vw vh pg) = Inr r \<longrightarrow>
        og_title (rp_meta r) =
          Option.bind (query_selector pg [Tag_attr ''meta'' ''property'' ''og:title''])
            (\<lambda>el. getAttribute el ''content'')
        \<and> og_description (rp_meta r) =
          Option.bind (query_selector pg [Tag_attr ''meta'' ''property'' ''og:description''])
            (\<lambda>el. getAttribute el ''content'')
        \<and> og_image (rp_meta r) =
          Option.bind (query_selector pg [Tag_attr ''meta'' ''property'' ''og:image''])
            (\<lambda>el. getAttribute el ''content'')
        \<and> og_url (rp_meta r) =
          Option.bind (query_selector pg [Tag_attr ''meta'' ''property'' ''og:url''])
            (\<lambda>el. getAttribute el ''content'')
        \<and> twitter_card (rp_meta r) =
          Option.bind (query_selector pg [Tag_attr ''meta'' ''name'' ''twitter:card''])
            (\<lambda>el. getAttribute el ''content'')
        \<and> twitter_title (rp_meta r) =
          Option.bind (query_selector pg [Tag_attr ''meta'' ''name'' ''twitter:title''])
            (\<lambda>el. getAttribute el ''content'')
        \<and> canonical (rp_meta r) =
          Option.bind (query_selector pg [Tag_attr ''link'' ''rel'' ''canonical''])
            (\<lambda>el. getAttribute el ''href'')
        \<and> robots (rp_meta r) =
          Option.bind (query_selector pg [Tag_attr ''meta'' ''name'' ''robots''])
            (\<lambda>el. getAttribute el ''content'')
        \<and> viewport (rp_meta r) =
          Option.bind (query_selector pg [Tag_attr ''meta'' ''name'' ''viewport''])
            (\<lambda>el. getAttribute el ''content''))"
proof (intro conjI impI)
  show "fst (audit raises py_sum url vw vh pg) \<noteq> Inl AttributeError"
    using audit_errors [of raises py_sum url vw vh pg AttributeError] by auto
  show "\<exists>m. meta pg = Inr m"
    by (simp add: meta_eq)
next
  assume "fst (audit raises py_sum url vw vh pg) = Inr r"
  then have "audit_body py_sum url vw vh pg = Inr r"
    by (rule audit_returned)
  then have m: "rp_meta r = projr (meta pg)"
    by (auto dest: audit_body_eq)
  show "og_title (rp_meta r) =
          Option.bind (query_selector pg [Tag_attr ''meta'' ''property'' ''og:title''])
            (\<lambda>el. getAttribute el ''content'')"
    and "og_description (rp_meta r) =
          Option.bind (query_selector pg [Tag_attr ''meta'' ''property'' ''og:description''])
            (\<lambda>el. getAttribute el ''content'')"
    and "og_image (rp_meta r) =
          Option.bind (query_selector pg [Tag_attr ''meta'' ''property'' ''og:image''])
            (\<lambda>el. getAttribute el ''content'')"
    and "og_url (rp_meta r) =
          Option.bind (query_selector pg [Tag_attr ''meta'' ''property'' ''og:url''])
            (\<lambda>el. getAttribute el ''content'')"
    and "twitter_card (rp_meta r) =
          Option.bind (query_selector pg [Tag_attr ''meta'' ''name'' ''twitter:card''])
            (\<lambda>el. getAttribute el ''content'')"
    and "twitter_title (rp_meta r) =
          Option.bind (query_selector pg [Tag_attr ''meta'' ''name'' ''twitter:title''])
            (\<lambda>el. getAttribute el ''content'')"
    and "canonical (rp_meta r) =
          Option.bind (query_selector pg [Tag_attr ''link'' ''rel'' ''canonical''])
            (\<lambda>el. getAttribute el ''href'')"
    and "robots (rp_meta r) =
          Option.bind (query_selector pg [Tag_attr ''meta'' ''name'' ''robots''])
            (\<lambda>el. getAttribute el ''content'')"
    and "viewport (rp_meta r) =
          Option.bind (query_selector pg [Tag_attr ''meta'' ''name'' ''viewport''])
            (\<lambda>el. getAttribute el ''content'')"
    by (simp_all add: m meta_eq)
qed

theorem meta_fields_witness:
  "fst (audit never left_to_right_sum [] 1440 900 page_bare_robots)
     = Inr (projr (audit_body left_to_right_sum [] 1440 900 page_bare_robots))
   \<and> og_title (rp_meta (projr (audit_body left_to_right_sum [] 1440 900 page_bare_robots))) = Some ''Home''
   \<and> robots (rp_meta (projr (audit_body left_to_right_sum [] 1440 900 page_bare_robots))) = None
   \<and> og_image (rp_meta (projr (audit_body left_to_right_sum [] 1440 900 page_bare_robots))) = None
   \<and> canonical (rp_meta (projr (audit_body left_to_right_sum [] 1440 900 page_bare_robots)))
       = Some ''https://example.org/''"
proof -
  have ret: "fst (audit never left_to_right_sum [] 1440 900 page_bare_robots)
      = Inr (projr (audit_body left_to_right_sum [] 1440 900 page_bare_robots))"
    by (rule audit_never_returns) code_simp
  have q: "Option.bind (query_selector page_bare_robots [Tag_attr ''meta'' ''property'' ''og:title''])
            (\<lambda>el. getAttribute el ''content'') = Some ''Home''"
    "Option.bind (query_selector page_bare_robots [Tag_attr ''meta'' ''name'' ''robots''])
            (\<lambda>el. getAttribute el ''content'') = None"
    "Option.bind (query_selector page_bare_robots [Tag_attr ''meta'' ''property'' ''og:image''])
            (\<lambda>el. getAttribute el ''content'') = None"
    "Option.bind (query_selector page_bare_robots [Tag_attr ''link'' ''rel'' ''canonical''])
            (\<lambda>el. getAttribute el ''href'') = Some ''https://example.org/''"
    by code_simp+
  from meta_fields [of never left_to_right_sum "[]" 1440 900 page_bare_robots
      "projr (audit_body left_to_right_sum [] 1440 900 page_bare_robots)"]
  show ?thesis
    by (simp add: ret q)
qed

section \<open>Logo candidates\<close>

lemma is_logo_iff:
  "is_logo el \<longleftrightarrow>
     closest el ''header'' \<or> closest el ''nav''
     \<or> js_includes
          (toLowerCase
             (if truthy (getAttribute el ''src'') then the (getAttribute el ''src'')
              else if truthy (getAttribute el ''alt'') then the (getAttribute el ''alt'')
              else if truthy (getAttribute el ''aria-label'')
                   then the (getAttribute el ''aria-label'')
              else []))
          ''logo''"
  by (auto simp: is_logo_def Let_def or_string_def js_or_def truthy_def split: option.splits)

lemma is_logo_by_spec: "is_logo el \<Longrightarrow> logo_by_spec el"
  unfolding is_logo_iff logo_by_spec_def
  by (auto simp: or_string_def js_or_def truthy_def toLowerCase_def
      split: option.splits if_splits)

text \<open>
  Claim C5 says that the logo candidates are the first three \<open>img\<close> or \<open>svg\<close>
  elements inside a header or nav, or whose src, alt or aria-label mentions "logo". The
  script looks for "logo" in one string only: the first of src, alt and aria-label that
  is present and not empty. An image outside header and nav with
  \<open>src="/img/a.png"\<close> and \<open>alt="Company Logo"\<close> is the first element that the
  claim describes, and it is not among the candidates; the third image of the nav, which
  is the fourth such element, is.
\<close>

theorem logo_candidates_counterexample:
  "map_sum id cr_logo_candidates (fst (capture never [] [] page_badge))
     = Inr [\<lparr> l_tag = ''IMG'', l_src = ''/i/1.png'', l_visible = True \<rparr>,
            \<lparr> l_tag = ''IMG'', l_src = ''/i/2.png'', l_visible = True \<rparr>,
            \<lparr> l_tag = ''IMG'', l_src = ''/i/3.png'', l_visible = True \<rparr>]
   \<and> slice_to 3 (filter logo_by_spec (query_selector_all page_badge [Tag ''img'', Tag ''svg'']))
     = [badge, nav_icon ''/i/1.png'', nav_icon ''/i/2.png'']
   \<and> logo_of page_badge badge = \<lparr> l_tag = ''IMG'', l_src = ''/img/a.png'', l_visible = True \<rparr>"
proof -
  have l: "logo_candidates page_badge
     = [\<lparr> l_tag = ''IMG'', l_src = ''/i/1.png'', l_visible = True \<rparr>,
        \<lparr> l_tag = ''IMG'', l_src = ''/i/2.png'', l_visible = True \<rparr>,
        \<lparr> l_tag = ''IMG'', l_src = ''/i/3.png'', l_visible = True \<rparr>]"
    by code_simp
  have s: "slice_to 3 (filter logo_by_spec (query_selector_all page_badge [Tag ''img'', Tag ''svg'']))
     = [badge, nav_icon ''/i/1.png'', nav_icon ''/i/2.png'']"
    by code_simp
  have b: "logo_of page_badge badge
     = \<lparr> l_tag = ''IMG'', l_src = ''/img/a.png'', l_visible = True \<rparr>"
    by code_simp
  show ?thesis
    by (simp add: capture_never capture_body_def l s b)
qed

text \<open>
  Claim C5, amended. The logo candidates are at most three: the first three \<open>img\<close>
  or \<open>svg\<close> elements, in document order, that lie inside a header or nav ancestor, or
  whose first non-empty attribute among src, alt and aria-label (in this order) contains
  "logo", whatever the case of its letters. Each of them is an element that the claim
  describes.
\<close>

theorem logo_candidates_first_three:
  assumes "fst (capture raises url out pg) = Inr r"
  shows "length (cr_logo_candidates r) \<le> 3
    \<and> cr_logo_candidates r =
        map (logo_of pg)
          (take 3 (filter is_logo
             (filter (\<lambda>e. localName e = ''img'' \<or> localName e = ''svg'') (elements pg))))
    \<and> (\<forall>el. is_logo el \<longleftrightarrow>
          closest el ''header'' \<or> closest el ''nav''
          \<or> js_includes
               (toLowerCase
                  (if truthy (getAttribute el ''src'') then the (getAttribute el ''src'')
                   else if truthy (getAttribute el ''alt'') then the (getAttribute el ''alt'')
                   else if truthy (getAttribute el ''aria-label'')
                        then the (getAttribute el ''aria-label'')
                   else []))
               ''logo'')
    \<and> (\<forall>el. is_logo el \<longrightarrow> logo_by_spec el)"
proof -
  have r: "r = capture_body pg"
    using assms by (rule capture_returned)
  have "matches [Tag ''img'', Tag ''svg''] = (\<lambda>e. localName e = ''img'' \<or> localName e = ''svg'')"
    by (rule ext) (simp add: matches_def)
  then have sel: "query_selector_all pg [Tag ''img'', Tag ''svg'']
      = filter (\<lambda>e. localName e = ''img'' \<or> localName e = ''svg'') (elements pg)"
    by (simp add: query_selector_all_def)
  have c: "cr_logo_candidates r =
        map (logo_of pg)
          (take 3 (filter is_logo
             (filter (\<lambda>e. localName e = ''img'' \<or> localName e = ''svg'') (elements pg))))"
    unfolding r capture_body_def logo_candidates_def sel slice_to_def by simp
  have len: "length (cr_logo_candidates r) \<le> 3"
    unfolding c by simp
  show ?thesis
    using c len is_logo_iff is_logo_by_spec by blast
qed

theorem logo_candidates_first_three_witness:
  "fst (capture never [] [] page_badge) = Inr (capture_body page_badge)
   \<and> length (cr_logo_candidates (capture_body page_badge)) = 3
   \<and> is_logo (nav_icon ''/i/1.png'') \<and> logo_by_spec (nav_icon ''/i/1.png'')
   \<and> \<not> is_logo badge"
proof -
  have ret: "fst (capture never [] [] page_badge) = Inr (capture_body page_badge)"
    by (rule capture_never)
  have three: "length (take 3 (filter is_logo
             (filter (\<lambda>e. localName e = ''img'' \<or> localName e = ''svg'')
                (elements page_badge)))) = 3"
    by code_simp
  have icon: "is_logo (nav_icon ''/i/1.png'')"
    by code_simp
  have badge: "\<not> is_logo badge"
    by code_simp
  note t = logo_candidates_first_three [OF ret]
  from t have "cr_logo_candidates (capture_body page_badge) =
        map (logo_of page_badge)
          (take 3 (filter is_logo
             (filter (\<lambda>e. localName e = ''img'' \<or> localName e = ''svg'')
                (elements page_badge))))"
    by (rule conjunct1 [OF conjunct2])
  then have len: "length (cr_logo_candidates (capture_body page_badge)) = 3"
    by (simp only: length_map three)
  from t icon have "logo_by_spec (nav_icon ''/i/1.png'')"
    by blast
  with ret len icon badge show ?thesis
    by blast
qed

end
